theory Spec2Isabelle
  imports Main "HOL-Library.Sublist" "HOL-Library.Multiset"
begin

section \<open>The catalog\<close>

text \<open>
  A topic is one dictionary of the list \<open>TOPICS\<close> in \<open>src/app.py\<close>. The page script
  receives the list as JSON and reads the fields \<open>title\<close>, \<open>desc\<close>, \<open>cmd\<close>,
  \<open>example\<close>, \<open>tf_link\<close>, \<open>category\<close> and \<open>score\<close>. Every use of \<open>desc\<close>, \<open>cmd\<close>,
  \<open>example\<close>, \<open>tf_link\<close> and \<open>category\<close> in the script goes through a truthiness test
  (\<open>t.desc || ''\<close>, \<open>t.cmd ? \<dots>\<close>, \<open>t.category && \<dots>\<close>), under which a missing field and the
  empty string behave alike, so these fields are strings and the empty string stands for a
  missing one as well. The title, and the description in the markup of a card, are read
  without a test: every topic of the model has both, as every entry of \<open>TOPICS\<close> has.
  The score is optional; it is an integer here, and \<open>None\<close> is a missing score.
  Strings are lists of 8-bit characters, read as the code points U+0000 to U+00FF. In the
  literals of \<open>TOPICS\<close> a line feed is written \<open>\<newline>\<close>, and the quote characters
  are written by their codes (\<open>CHR 0x22\<close>, \<open>CHR 0x27\<close>).
\<close>

record topic =
  id_field :: string
  title :: string
  desc :: string
  cmd :: string
  example :: string
  tf_link :: string
  category :: string
  score :: "int option"

definition TOPICS :: "topic list" where
  \<open>TOPICS = [
    \<lparr>id_field = ''init'',
     title = ''terraform init'',
     desc = ''Initialize a new or existing Terraform working directory: downloads providers, initializes backends and modules.'',
     cmd = ''terraform init'',
     example = ''terraform init\<newline># Reconfigure backend\<newline>terraform init -reconfigure -backend-config='' @ [CHR 0x22] @ ''bucket=my-bucket'' @ [CHR 0x22],
     tf_link = ''https://developer.hashicorp.com/terraform/cli/commands/init'',
     category = ''Basic Terraform Commands'',
     score = None\<rparr>,
    \<lparr>id_field = ''plan'',
     title = ''terraform plan'',
     desc = ''Generate and show an execution plan (what Terraform will change).'',
     cmd = ''terraform plan -out=plan.tfplan'',
     example = ''terraform plan -out=plan.tfplan\<newline>terraform plan -detailed-exitcode'',
     tf_link = ''https://developer.hashicorp.com/terraform/cli/commands/plan'',
     category = ''Basic Terraform Commands'',
     score = None\<rparr>,
    \<lparr>id_field = ''apply'',
     title = ''terraform apply'',
     desc = ''Build or change infrastructure as described by the plan or configuration.'',
     cmd = ''terraform apply plan.tfplan'',
     example = ''terraform apply plan.tfplan\<newline># non-interactive\<newline>terraform apply -auto-approve'',
     tf_link = ''https://developer.hashicorp.com/terraform/cli/commands/apply'',
     category = ''Basic Terraform Commands'',
     score = None\<rparr>,
    \<lparr>id_field = ''destroy'',
     title = ''terraform destroy'',
     desc = ''Destroy Terraform-managed infrastructure for the current configuration.'',
     cmd = ''terraform destroy'',
     example = ''terraform destroy -auto-approve\<newline># target a single resource\<newline>terraform destroy -target=aws_instance.example'',
     tf_link = ''https://developer.hashicorp.com/terraform/cli/commands/destroy'',
     category = ''Basic Terraform Commands'',
     score = None\<rparr>,
    \<lparr>id_field = ''fmt'',
     title = ''terraform fmt'',
     desc = ''Format Terraform configuration files to canonical HCL style.'',
     cmd = ''terraform fmt -recursive'',
     example = ''terraform fmt -check -recursive'',
     tf_link = ''https://developer.hashicorp.com/terraform/cli/commands/fmt'',
     category = ''Basic Terraform Commands'',
     score = None\<rparr>,
    \<lparr>id_field = ''validate'',
     title = ''terraform validate'',
     desc = ''Validate configuration syntax and basic semantic rules without contacting remote systems.'',
     cmd = ''terraform validate'',
     example = ''terraform validate\<newline>terraform validate -json > validate.json'',
     tf_link = ''https://developer.hashicorp.com/terraform/cli/commands/validate'',
     category = ''Basic Terraform Commands'',
     score = None\<rparr>,
    \<lparr>id_field = ''output'',
     title = ''terraform output'',
     desc = ''Read outputs from the state or a saved plan; supports machine-readable JSON.'',
     cmd = ''terraform output instance_ip'',
     example = ''terraform output -json > outputs.json'',
     tf_link = ''https://developer.hashicorp.com/terraform/cli/commands/output'',
     category = ''Basic Terraform Commands'',
     score = None\<rparr>,
    \<lparr>id_field = ''show'',
     title = ''terraform show'',
     desc = ''Produce human-readable or JSON representation of state or plan files.'',
     cmd = ''terraform show plan.tfplan'',
     example = ''terraform show -json plan.tfplan > plan.json'',
     tf_link = ''https://developer.hashicorp.com/terraform/cli/commands/show'',
     category = ''Basic Terraform Commands'',
     score = None\<rparr>,
    \<lparr>id_field = ''version'',
     title = ''terraform version'',
     desc = ''Display the Terraform and plugin versions in use.'',
     cmd = ''terraform version'',
     example = ''terraform version'',
     tf_link = ''https://developer.hashicorp.com/terraform/cli/commands/version'',
     category = ''Basic Terraform Commands'',
     score = None\<rparr>,
    \<lparr>id_field = ''providers'',
     title = ''terraform providers'',
     desc = ''List providers required by the configuration and show provider dependency graph.'',
     cmd = ''terraform providers'',
     example = ''terraform providers\<newline>terraform providers | sed -n '' @ [CHR 0x27] @ ''1,50p'' @ [CHR 0x27],
     tf_link = ''https://developer.hashicorp.com/terraform/cli/commands/providers'',
     category = ''Basic Terraform Commands'',
     score = None\<rparr>,
    \<lparr>id_field = ''state_list'',
     title = ''terraform state list'',
     desc = ''List all resources recorded in the Terraform state.'',
     cmd = ''terraform state list'',
     example = ''terraform state list'',
     tf_link = ''https://developer.hashicorp.com/terraform/cli/state'',
     category = ''Terraform State Management'',
     score = None\<rparr>,
    \<lparr>id_field = ''state_show'',
     title = ''terraform state show'',
     desc = ''Show attributes for a single resource from the state.'',
     cmd = ''terraform state show aws_instance.example'',
     example = ''terraform state show module.db.aws_db_instance.example'',
     tf_link = ''https://developer.hashicorp.com/terraform/cli/state'',
     category = ''Terraform State Management'',
     score = None\<rparr>,
    \<lparr>id_field = ''state_pull'',
     title = ''terraform state pull'',
     desc = ''Download current state from the backend as JSON to stdout.'',
     cmd = ''terraform state pull'',
     example = ''terraform state pull > terraform.tfstate'',
     tf_link = ''https://developer.hashicorp.com/terraform/cli/state'',
     category = ''Terraform State Management'',
     score = None\<rparr>,
    \<lparr>id_field = ''state_push'',
     title = ''terraform state push'',
     desc = ''Upload a local state file to the remote backend (advanced/rare; use with caution).'',
     cmd = ''terraform state push terraform.tfstate'',
     example = ''terraform state push terraform.tfstate'',
     tf_link = ''https://developer.hashicorp.com/terraform/cli/state'',
     category = ''Terraform State Management'',
     score = None\<rparr>,
    \<lparr>id_field = ''state_rm'',
     title = ''terraform state rm'',
     desc = ''Remove a resource from the state without modifying real infrastructure.'',
     cmd = ''terraform state rm aws_instance.example'',
     example = ''terraform state rm module.old.aws_instance.example'',
     tf_link = ''https://developer.hashicorp.com/terraform/cli/state'',
     category = ''Terraform State Management'',
     score = None\<rparr>,
    \<lparr>id_field = ''state_mv'',
     title = ''terraform state mv'',
     desc = ''Move resources within the state (rename or move between modules).'',
     cmd = ''terraform state mv '' @ [CHR 0x27] @ ''aws_instance.old[0]'' @ [CHR 0x27] @ '' '' @ [CHR 0x27] @ ''aws_instance.new[0]'' @ [CHR 0x27],
     example = ''terraform state mv module.old.aws_instance.example module.new.aws_instance.example'',
     tf_link = ''https://developer.hashicorp.com/terraform/cli/state'',
     category = ''Terraform State Management'',
     score = None\<rparr>,
    \<lparr>id_field = ''state_replace_provider'',
     title = ''terraform state replace-provider'',
     desc = ''Replace provider references in the state when changing provider addresses.'',
     cmd = ''terraform state replace-provider registry.terraform.io/hashicorp/aws registry.terraform.io/custom/myaws'',
     example = ''terraform state replace-provider old_provider new_provider'',
     tf_link = ''https://developer.hashicorp.com/terraform/cli/state'',
     category = ''Terraform State Management'',
     score = None\<rparr>,
    \<lparr>id_field = ''refresh'',
     title = ''terraform refresh'',
     desc = ''Update local state to match real-world infrastructure (deprecated; plan/refresh flags preferred).'',
     cmd = ''terraform refresh'',
     example = ''terraform refresh\<newline># or use plan with -refresh=true/false'',
     tf_link = ''https://developer.hashicorp.com/terraform/cli/commands/plan'',
     category = ''Terraform State Management'',
     score = None\<rparr>,
    \<lparr>id_field = ''workspace_list'',
     title = ''terraform workspace list'',
     desc = ''List all named workspaces for the current configuration.'',
     cmd = ''terraform workspace list'',
     example = ''terraform workspace list'',
     tf_link = ''https://developer.hashicorp.com/terraform/cli/commands/workspace'',
     category = ''Terraform Workspaces'',
     score = None\<rparr>,
    \<lparr>id_field = ''workspace_new'',
     title = ''terraform workspace new'',
     desc = ''Create a new named workspace (separate state instance).'',
     cmd = ''terraform workspace new dev'',
     example = ''terraform workspace new staging'',
     tf_link = ''https://developer.hashicorp.com/terraform/cli/commands/workspace'',
     category = ''Terraform Workspaces'',
     score = None\<rparr>,
    \<lparr>id_field = ''workspace_select'',
     title = ''terraform workspace select'',
     desc = ''Switch to an existing workspace to use its state.'',
     cmd = ''terraform workspace select prod'',
     example = ''terraform workspace select staging'',
     tf_link = ''https://developer.hashicorp.com/terraform/cli/commands/workspace'',
     category = ''Terraform Workspaces'',
     score = None\<rparr>,
    \<lparr>id_field = ''workspace_delete'',
     title = ''terraform workspace delete'',
     desc = ''Delete a workspace and its state (use with caution).'',
     cmd = ''terraform workspace delete old-env'',
     example = ''terraform workspace delete staging'',
     tf_link = ''https://developer.hashicorp.com/terraform/cli/commands/workspace'',
     category = ''Terraform Workspaces'',
     score = None\<rparr>,
    \<lparr>id_field = ''workspace_show'',
     title = ''terraform workspace show'',
     desc = ''Display the current workspace name.'',
     cmd = ''terraform workspace show'',
     example = ''terraform workspace show'',
     tf_link = ''https://developer.hashicorp.com/terraform/cli/commands/workspace'',
     category = ''Terraform Workspaces'',
     score = None\<rparr>,
    \<lparr>id_field = ''import_resource'',
     title = ''terraform import'',
     desc = ''Import existing infrastructure into Terraform state; update configuration afterwards to match resource attributes.'',
     cmd = ''terraform import aws_instance.web i-0123456789abcdef0'',
     example = ''terraform import module.db.aws_db_instance.example rds-123456'',
     tf_link = ''https://developer.hashicorp.com/terraform/cli/commands/import'',
     category = ''Terraform Import'',
     score = None\<rparr>,
    \<lparr>id_field = ''graph'',
     title = ''terraform graph'',
     desc = ''Output dependency graph in DOT format; pipe to Graphviz to render images.'',
     cmd = ''terraform graph | dot -Tpng > graph.png'',
     example = ''terraform graph | dot -Tsvg > graph.svg'',
     tf_link = ''https://developer.hashicorp.com/terraform/cli/commands/graph'',
     category = ''Graph & Visualization'',
     score = None\<rparr>,
    \<lparr>id_field = ''apply_auto_approve'',
     title = ''terraform apply -auto-approve'',
     desc = ''Apply without interactive confirmation (use with caution in automation).'',
     cmd = ''terraform apply -auto-approve'',
     example = ''terraform apply -auto-approve'',
     tf_link = ''https://developer.hashicorp.com/terraform/cli/commands/apply'',
     category = ''Plan & Apply Options'',
     score = None\<rparr>,
    \<lparr>id_field = ''apply_var'',
     title = ''terraform apply -var'',
     desc = ''Pass a single variable override on the CLI during apply.'',
     cmd = ''terraform apply -var='' @ [CHR 0x27] @ ''key=value'' @ [CHR 0x27],
     example = ''terraform apply -var='' @ [CHR 0x27] @ ''region=eu-west-1'' @ [CHR 0x27] @ '' -auto-approve'',
     tf_link = ''https://developer.hashicorp.com/terraform/language/values/variables#passing-values-on-the-command-line'',
     category = ''Plan & Apply Options'',
     score = None\<rparr>,
    \<lparr>id_field = ''apply_target'',
     title = ''terraform apply -target'',
     desc = ''Apply changes targeting a specific resource (advanced; use carefully).'',
     cmd = ''terraform apply -target=aws_instance.example'',
     example = ''terraform apply -target=module.db.aws_db_instance.example'',
     tf_link = ''https://developer.hashicorp.com/terraform/cli/commands/apply'',
     category = ''Plan & Apply Options'',
     score = None\<rparr>,
    \<lparr>id_field = ''apply_planfile'',
     title = ''terraform apply <plan_file>'',
     desc = ''Apply a previously saved plan file to perform the planned changes.'',
     cmd = ''terraform apply plan.tfplan'',
     example = ''terraform plan -out=plan.tfplan\<newline>terraform apply plan.tfplan'',
     tf_link = ''https://developer.hashicorp.com/terraform/cli/commands/apply'',
     category = ''Plan & Apply Options'',
     score = None\<rparr>,
    \<lparr>id_field = ''plan_out'',
     title = ''terraform plan -out'',
     desc = ''Save the execution plan to a file for later application or inspection.'',
     cmd = ''terraform plan -out=plan.tfplan'',
     example = ''terraform plan -out=ci.plan\<newline>terraform show -json ci.plan > ci-plan.json'',
     tf_link = ''https://developer.hashicorp.com/terraform/cli/commands/plan'',
     category = ''Plan & Apply Options'',
     score = None\<rparr>,
    \<lparr>id_field = ''plan_var'',
     title = ''terraform plan -var'',
     desc = ''Provide a one-off variable override on the CLI when generating a plan.'',
     cmd = ''terraform plan -var='' @ [CHR 0x27] @ ''key=value'' @ [CHR 0x27],
     example = ''terraform plan -var='' @ [CHR 0x27] @ ''env=staging'' @ [CHR 0x27] @ '' -out=plan.tfplan'',
     tf_link = ''https://developer.hashicorp.com/terraform/language/values/variables#passing-values-on-the-command-line'',
     category = ''Plan & Apply Options'',
     score = None\<rparr>,
    \<lparr>id_field = ''plan_target'',
     title = ''terraform plan -target'',
     desc = ''Generate a plan targeting specific resources to limit change scope.'',
     cmd = ''terraform plan -target=aws_instance.example'',
     example = ''terraform plan -target=module.db -out=target-plan.tfplan'',
     tf_link = ''https://developer.hashicorp.com/terraform/cli/commands/plan'',
     category = ''Plan & Apply Options'',
     score = None\<rparr>,
    \<lparr>id_field = ''plan_destroy'',
     title = ''terraform plan -destroy'',
     desc = ''Show a plan that would destroy all resources managed by the configuration.'',
     cmd = ''terraform plan -destroy'',
     example = ''terraform plan -destroy -out=destroy.tfplan'',
     tf_link = ''https://developer.hashicorp.com/terraform/cli/commands/plan'',
     category = ''Plan & Apply Options'',
     score = None\<rparr>,
    \<lparr>id_field = ''plan_refresh_false'',
     title = ''terraform plan -refresh=false'',
     desc = ''Skip refreshing the state from real infrastructure when generating the plan (faster but may be stale).'',
     cmd = ''terraform plan -refresh=false'',
     example = ''terraform plan -refresh=false -out=plan.tfplan'',
     tf_link = ''https://developer.hashicorp.com/terraform/cli/commands/plan'',
     category = ''Plan & Apply Options'',
     score = None\<rparr>,
    \<lparr>id_field = ''apply_refresh_only'',
     title = ''terraform apply -refresh-only'',
     desc = ''Update the state to match real infrastructure without changing any resources.'',
     cmd = ''terraform apply -refresh-only'',
     example = ''terraform apply -refresh-only -auto-approve'',
     tf_link = ''https://developer.hashicorp.com/terraform/cli/commands/apply'',
     category = ''Plan & Apply Options'',
     score = None\<rparr>,
    \<lparr>id_field = ''apply_var_file'',
     title = ''terraform apply -var-file=<file.tfvars>'',
     desc = ''Load variables from a .tfvars file during apply to provide consistent input values.'',
     cmd = ''terraform apply -var-file=prod.tfvars'',
     example = ''terraform apply -var-file=prod.tfvars -auto-approve'',
     tf_link = ''https://developer.hashicorp.com/terraform/language/values/variables#variable-definitions-tfvars-files'',
     category = ''Variable Management (explicit cards per request)'',
     score = None\<rparr>,
    \<lparr>id_field = ''plan_var_file'',
     title = ''terraform plan -var-file=<file.tfvars>'',
     desc = ''Create a plan using variables sourced from a .tfvars file.'',
     cmd = ''terraform plan -var-file=prod.tfvars -out=plan.tfplan'',
     example = ''terraform plan -var-file=staging.tfvars -out=plan.tfplan'',
     tf_link = ''https://developer.hashicorp.com/terraform/cli/commands/plan'',
     category = ''Variable Management (explicit cards per request)'',
     score = None\<rparr>,
    \<lparr>id_field = ''apply_var_cli'',
     title = ''terraform apply -var='' @ [CHR 0x22] @ ''key=value'' @ [CHR 0x22],
     desc = ''Apply with an immediate single variable override from the CLI.'',
     cmd = ''terraform apply -var='' @ [CHR 0x27] @ ''image=ami-12345'' @ [CHR 0x27] @ '' -auto-approve'',
     example = ''terraform apply -var='' @ [CHR 0x27] @ ''region=eu-west-1'' @ [CHR 0x27] @ '' -auto-approve'',
     tf_link = ''https://developer.hashicorp.com/terraform/language/values/variables#passing-values-on-the-command-line'',
     category = ''Variable Management (explicit cards per request)'',
     score = None\<rparr>,
    \<lparr>id_field = ''plan_var_cli'',
     title = ''terraform plan -var='' @ [CHR 0x22] @ ''key=value'' @ [CHR 0x22],
     desc = ''Plan using a single CLI-provided variable override.'',
     cmd = ''terraform plan -var='' @ [CHR 0x27] @ ''image=ami-12345'' @ [CHR 0x27] @ '' -out=plan.tfplan'',
     example = ''terraform plan -var='' @ [CHR 0x27] @ ''env=dev'' @ [CHR 0x27] @ '' -out=plan.tfplan'',
     tf_link = ''https://developer.hashicorp.com/terraform/language/values/variables#passing-values-on-the-command-line'',
     category = ''Variable Management (explicit cards per request)'',
     score = None\<rparr>,
    \<lparr>id_field = ''apply_lock_false'',
     title = ''terraform apply -lock=false'',
     desc = ''Disable state locking for this apply (dangerous for remote backends; use cautiously).'',
     cmd = ''terraform apply -lock=false -auto-approve'',
     example = ''terraform apply -lock=false -auto-approve'',
     tf_link = ''https://developer.hashicorp.com/terraform/cli/commands/apply'',
     category = ''Variable Management (explicit cards per request)'',
     score = None\<rparr>,
    \<lparr>id_field = ''plan_input_false'',
     title = ''terraform plan -input=false'',
     desc = ''Run plan non-interactively by disabling prompts for missing input; useful in CI.'',
     cmd = ''terraform plan -input=false -var-file=ci.tfvars'',
     example = ''terraform plan -input=false -var-file=secrets.tfvars -out=plan.tfplan'',
     tf_link = ''https://developer.hashicorp.com/terraform/cli/commands/plan'',
     category = ''Variable Management (explicit cards per request)'',
     score = None\<rparr>,
    \<lparr>id_field = ''taint_cmd'',
     title = ''terraform taint <resource>'',
     desc = ''Mark a resource in the state to be recreated on the next apply.'',
     cmd = ''terraform taint aws_instance.example'',
     example = ''terraform taint aws_instance.old'',
     tf_link = ''https://developer.hashicorp.com/terraform/cli/commands/taint'',
     category = ''Resource Taint & Untaint'',
     score = None\<rparr>,
    \<lparr>id_field = ''untaint_cmd'',
     title = ''terraform untaint <resource>'',
     desc = ''Remove a taint mark so the resource will not be recreated.'',
     cmd = ''terraform untaint aws_instance.example'',
     example = ''terraform untaint aws_instance.old'',
     tf_link = ''https://developer.hashicorp.com/terraform/cli/commands/taint'',
     category = ''Resource Taint & Untaint'',
     score = None\<rparr>,
    \<lparr>id_field = ''remote_config'',
     title = ''terraform remote config'',
     desc = ''Configure remote state storage (legacy command in older versions; use backend blocks with init).'',
     cmd = ''terraform remote config'',
     example = ''# Prefer backend block + terraform init\<newline>terraform init -backend-config='' @ [CHR 0x22] @ ''bucket=my-bucket'' @ [CHR 0x22],
     tf_link = ''https://developer.hashicorp.com/terraform/language/state/overview'',
     category = ''Remote State Management'',
     score = None\<rparr>,
    \<lparr>id_field = ''backend_config'',
     title = ''terraform init -backend-config'',
     desc = ''Specify backend configuration values at init time or reconfigure existing backend.'',
     cmd = ''terraform init -backend-config=backend.tf'',
     example = ''terraform init -backend-config='' @ [CHR 0x22] @ ''bucket=my-bucket'' @ [CHR 0x22] @ '' -reconfigure'',
     tf_link = ''https://developer.hashicorp.com/terraform/language/state/overview'',
     category = ''Remote State Management'',
     score = None\<rparr>,
    \<lparr>id_field = ''state_push_remote'',
     title = ''terraform state push (remote)'',
     desc = ''Upload a local state file to the configured backend (advanced; be cautious).'',
     cmd = ''terraform state push terraform.tfstate'',
     example = ''terraform state push terraform.tfstate'',
     tf_link = ''https://developer.hashicorp.com/terraform/cli/state'',
     category = ''Remote State Management'',
     score = None\<rparr>,
    \<lparr>id_field = ''state_pull_remote'',
     title = ''terraform state pull (remote)'',
     desc = ''Download current remote state from the backend.'',
     cmd = ''terraform state pull > current.tfstate'',
     example = ''terraform state pull > backup-2025-10-22.tfstate'',
     tf_link = ''https://developer.hashicorp.com/terraform/cli/state'',
     category = ''Remote State Management'',
     score = None\<rparr>,
    \<lparr>id_field = ''providers_schema'',
     title = ''terraform providers schema'',
     desc = ''Show provider schema to inspect resource and data source attributes (JSON output available).'',
     cmd = ''terraform providers schema -json'',
     example = ''terraform providers schema -json > providers-schema.json'',
     tf_link = ''https://developer.hashicorp.com/terraform/cli/commands/providers'',
     category = ''Provider Management'',
     score = None\<rparr>,
    \<lparr>id_field = ''providers_lock'',
     title = ''terraform providers lock'',
     desc = ''Generate a dependency lock file for providers to ensure reproducible installs.'',
     cmd = ''terraform providers lock -platform=linux_amd64'',
     example = ''terraform providers lock -platform=linux_amd64'',
     tf_link = ''https://developer.hashicorp.com/terraform/cli/commands/providers'',
     category = ''Provider Management'',
     score = None\<rparr>,
    \<lparr>id_field = ''providers_mirror'',
     title = ''terraform providers mirror'',
     desc = ''Mirror provider plugins to a directory for air-gapped installs.'',
     cmd = ''terraform providers mirror ./vendor'',
     example = ''terraform providers mirror ./vendor'',
     tf_link = ''https://developer.hashicorp.com/terraform/cli/commands/providers'',
     category = ''Provider Management'',
     score = None\<rparr>,
    \<lparr>id_field = ''providers_install'',
     title = ''terraform providers install'',
     desc = ''Install providers locally (used by some workflows).'',
     cmd = ''terraform providers install'',
     example = ''terraform init && terraform providers install'',
     tf_link = ''https://developer.hashicorp.com/terraform/cli/commands/providers'',
     category = ''Provider Management'',
     score = None\<rparr>,
    \<lparr>id_field = ''init_upgrade'',
     title = ''terraform init -upgrade'',
     desc = ''Upgrade provider plugins to the newest allowed versions during init.'',
     cmd = ''terraform init -upgrade'',
     example = ''terraform init -upgrade'',
     tf_link = ''https://developer.hashicorp.com/terraform/cli/commands/init'',
     category = ''Provider Management'',
     score = None\<rparr>,
    \<lparr>id_field = ''force_unlock'',
     title = ''terraform force-unlock <lock-id>'',
     desc = ''Manually remove a stale lock on the state using the lock ID (use carefully).'',
     cmd = ''terraform force-unlock LOCK_ID'',
     example = ''terraform force-unlock 1234-abcd-5678'',
     tf_link = ''https://developer.hashicorp.com/terraform/cli/commands/force-unlock'',
     category = ''Locking and Unlocking'',
     score = None\<rparr>,
    \<lparr>id_field = ''apply_lock_timeout'',
     title = ''terraform apply -lock-timeout'',
     desc = ''Specify how long to wait when acquiring a state lock before failing.'',
     cmd = ''terraform apply -lock-timeout=5m -auto-approve'',
     example = ''terraform apply -lock-timeout=2m -auto-approve'',
     tf_link = ''https://developer.hashicorp.com/terraform/cli/commands/apply'',
     category = ''Locking and Unlocking'',
     score = None\<rparr>,
    \<lparr>id_field = ''state_push_file'',
     title = ''terraform state push <file>'',
     desc = ''Push a local state file to the remote backend (advanced restore or migration step).'',
     cmd = ''terraform state push backup.tfstate'',
     example = ''terraform state push backup.tfstate'',
     tf_link = ''https://developer.hashicorp.com/terraform/cli/state'',
     category = ''State Manipulation & Backups'',
     score = None\<rparr>,
    \<lparr>id_field = ''state_pull_file'',
     title = ''terraform state pull > file.tfstate'',
     desc = ''Pull the current state and save it locally for backup or inspection.'',
     cmd = ''terraform state pull > backup.tfstate'',
     example = ''terraform state pull > backup-2025-10-22.tfstate'',
     tf_link = ''https://developer.hashicorp.com/terraform/cli/state'',
     category = ''State Manipulation & Backups'',
     score = None\<rparr>,
    \<lparr>id_field = ''state_backup_restore'',
     title = ''State snapshot & restore'',
     desc = ''Create snapshots of state and restore from backups when needed.'',
     cmd = ''terraform state pull > snapshot.tfstate'',
     example = ''terraform state pull > snapshot.tfstate\<newline># restore: terraform state push snapshot.tfstate'',
     tf_link = ''https://developer.hashicorp.com/terraform/cli/state'',
     category = ''State Manipulation & Backups'',
     score = None\<rparr>,
    \<lparr>id_field = ''tf_log_debug'',
     title = ''TF_LOG=DEBUG'',
     desc = ''Enable debug-level logging to troubleshoot provider or plugin behavior.'',
     cmd = ''TF_LOG=DEBUG TF_LOG_PATH=./tf.log terraform plan'',
     example = ''TF_LOG=DEBUG TF_LOG_PATH=./tf.log terraform apply'',
     tf_link = ''https://developer.hashicorp.com/terraform/cli/commands/log'',
     category = ''Debugging & Logging'',
     score = None\<rparr>,
    \<lparr>id_field = ''tf_log_info'',
     title = ''TF_LOG=INFO'',
     desc = ''Enable info-level logging for less verbose runtime logs.'',
     cmd = ''TF_LOG=INFO terraform plan'',
     example = ''TF_LOG=INFO terraform plan'',
     tf_link = ''https://developer.hashicorp.com/terraform/cli/commands/log'',
     category = ''Debugging & Logging'',
     score = None\<rparr>,
    \<lparr>id_field = ''tf_log_path'',
     title = ''TF_LOG_PATH'',
     desc = ''Redirect Terraform logs to a file with TF_LOG_PATH.'',
     cmd = ''TF_LOG_PATH=./tf.log terraform apply'',
     example = ''TF_LOG=DEBUG TF_LOG_PATH=./tf.log terraform plan'',
     tf_link = ''https://developer.hashicorp.com/terraform/cli/commands/log'',
     category = ''Debugging & Logging'',
     score = None\<rparr>,
    \<lparr>id_field = ''validate_json'',
     title = ''terraform validate -json'',
     desc = ''Produce machine-readable JSON validation output for tooling and CI.'',
     cmd = ''terraform validate -json'',
     example = ''terraform validate -json > validate.json'',
     tf_link = ''https://developer.hashicorp.com/terraform/cli/commands/validate'',
     category = ''Debugging & Logging'',
     score = None\<rparr>,
    \<lparr>id_field = ''console'',
     title = ''terraform console'',
     desc = ''Interactive REPL to evaluate expressions against configuration and state.'',
     cmd = ''terraform console'',
     example = ''terraform console\<newline>> var.count\<newline>> module.vpc.subnet_ids'',
     tf_link = ''https://developer.hashicorp.com/terraform/cli/commands/console'',
     category = ''Debugging & Logging'',
     score = None\<rparr>,
    \<lparr>id_field = ''providers_schema_json'',
     title = ''terraform providers schema -json'',
     desc = ''Output provider schema in JSON to inspect resource/data attributes programmatically.'',
     cmd = ''terraform providers schema -json > schema.json'',
     example = ''terraform providers schema -json > providers-schema.json'',
     tf_link = ''https://developer.hashicorp.com/terraform/cli/commands/providers'',
     category = ''Debugging & Logging'',
     score = None\<rparr>,
    \<lparr>id_field = ''apply_replace'',
     title = ''terraform apply -replace'',
     desc = ''Force replacement of a specific resource during apply (selective recreate).'',
     cmd = ''terraform apply -replace='' @ [CHR 0x27] @ ''aws_instance.example'' @ [CHR 0x27] @ '' -auto-approve'',
     example = ''terraform apply -replace=aws_instance.example -auto-approve'',
     tf_link = ''https://developer.hashicorp.com/terraform/cli/commands/apply'',
     category = ''Experimental Commands'',
     score = None\<rparr>,
    \<lparr>id_field = ''plan_refresh_false_exp'',
     title = ''terraform plan -refresh=false (experimental)'',
     desc = ''Skip refresh before planning to speed up CI; may operate on stale data.'',
     cmd = ''terraform plan -refresh=false'',
     example = ''terraform plan -refresh=false -out=plan.tfplan'',
     tf_link = ''https://developer.hashicorp.com/terraform/cli/commands/plan'',
     category = ''Experimental Commands'',
     score = None\<rparr>,
    \<lparr>id_field = ''destroy_target'',
     title = ''terraform destroy -target'',
     desc = ''Destroy a specific resource by targeting it (advanced; use with caution).'',
     cmd = ''terraform destroy -target=aws_instance.example -auto-approve'',
     example = ''terraform destroy -target=module.db.aws_db_instance.example -auto-approve'',
     tf_link = ''https://developer.hashicorp.com/terraform/cli/commands/destroy'',
     category = ''Experimental Commands'',
     score = None\<rparr>,
    \<lparr>id_field = ''get'',
     title = ''terraform get'',
     desc = ''Download and update modules required by the configuration.'',
     cmd = ''terraform get -update'',
     example = ''terraform get && terraform get -update'',
     tf_link = ''https://developer.hashicorp.com/terraform/cli/commands/get'',
     category = ''Modules'',
     score = None\<rparr>,
    \<lparr>id_field = ''init_get_plugins'',
     title = ''terraform init -get-plugins'',
     desc = ''Download necessary provider plugins; modern init handles this automatically.'',
     cmd = ''terraform init -get-plugins'',
     example = ''terraform init -get-plugins'',
     tf_link = ''https://developer.hashicorp.com/terraform/cli/commands/init'',
     category = ''Modules'',
     score = None\<rparr>,
    \<lparr>id_field = ''state_snapshot'',
     title = ''terraform state snapshot'',
     desc = ''Create a snapshot/backup of the current state for recovery purposes.'',
     cmd = ''terraform state pull > snapshot.tfstate'',
     example = ''terraform state pull > snapshot-2025-10-22.tfstate'',
     tf_link = ''https://developer.hashicorp.com/terraform/cli/state'',
     category = ''Backups & Rollbacks'',
     score = None\<rparr>,
    \<lparr>id_field = ''state_restore'',
     title = ''terraform state restore'',
     desc = ''Restore state from a backup file by pushing it back to the backend (advanced).'',
     cmd = ''terraform state push snapshot.tfstate'',
     example = ''terraform state push snapshot.tfstate'',
     tf_link = ''https://developer.hashicorp.com/terraform/cli/state'',
     category = ''Backups & Rollbacks'',
     score = None\<rparr>,
    \<lparr>id_field = ''apply_backup_flag'',
     title = ''terraform apply -backup'',
     desc = ''Specify a backup file to write current state before applying changes (provider-specific workflows).'',
     cmd = ''terraform apply -backup=backup.tfstate'',
     example = ''terraform apply -backup=backup-2025-10-22.tfstate -auto-approve'',
     tf_link = ''https://developer.hashicorp.com/terraform/cli/commands/apply'',
     category = ''Backups & Rollbacks'',
     score = None\<rparr>,
    \<lparr>id_field = ''apply_auto_approve_repeat'',
     title = ''terraform apply -auto-approve'',
     desc = ''Run apply automatically without confirmation; commonly used in automation pipelines.'',
     cmd = ''terraform apply -auto-approve'',
     example = ''terraform apply -auto-approve'',
     tf_link = ''https://developer.hashicorp.com/terraform/cli/commands/apply'',
     category = ''Automation & Scripting'',
     score = None\<rparr>,
    \<lparr>id_field = ''plan_detailed_exitcode'',
     title = ''terraform plan -detailed-exitcode'',
     desc = ''Return exit codes that indicate whether a plan has changes (useful in CI to detect drift).'',
     cmd = ''terraform plan -detailed-exitcode'',
     example = ''terraform plan -detailed-exitcode || echo '' @ [CHR 0x27] @ ''changes or error'' @ [CHR 0x27],
     tf_link = ''https://developer.hashicorp.com/terraform/cli/commands/plan'',
     category = ''Automation & Scripting'',
     score = None\<rparr>,
    \<lparr>id_field = ''apply_parallelism'',
     title = ''terraform apply -parallelism'',
     desc = ''Limit concurrency of resource operations during apply to control API load.'',
     cmd = ''terraform apply -parallelism=10 -auto-approve'',
     example = ''terraform apply -parallelism=5 -auto-approve'',
     tf_link = ''https://developer.hashicorp.com/terraform/cli/commands/apply'',
     category = ''Automation & Scripting'',
     score = None\<rparr>,
    \<lparr>id_field = ''login_logout'',
     title = ''terraform login / logout'',
     desc = ''Authenticate to Terraform Cloud/Enterprise and remove local credentials.'',
     cmd = ''terraform login'',
     example = ''terraform login\<newline>terraform logout'',
     tf_link = ''https://developer.hashicorp.com/terraform/cli/commands/login'',
     category = ''Remote backend & collaboration'',
     score = None\<rparr>,
    \<lparr>id_field = ''init_backend_config'',
     title = ''terraform init -backend-config'',
     desc = ''Initialize backend with specific configuration values for remote state.'',
     cmd = ''terraform init -backend-config=backend.tf'',
     example = ''terraform init -backend-config='' @ [CHR 0x22] @ ''bucket=my-bucket'' @ [CHR 0x22] @ '' -reconfigure'',
     tf_link = ''https://developer.hashicorp.com/terraform/language/state/overview'',
     category = ''Remote backend & collaboration'',
     score = None\<rparr>,
    \<lparr>id_field = ''init_force_copy'',
     title = ''terraform init -force-copy'',
     desc = ''Force copying of state data when reinitializing a backend (use carefully).'',
     cmd = ''terraform init -force-copy'',
     example = ''terraform init -force-copy -reconfigure -backend-config='' @ [CHR 0x22] @ ''bucket=my-bucket'' @ [CHR 0x22],
     tf_link = ''https://developer.hashicorp.com/terraform/cli/commands/init'',
     category = ''Miscellaneous & tips'',
     score = None\<rparr>,
    \<lparr>id_field = ''plan_compact_warnings'',
     title = ''terraform plan -compact-warnings'',
     desc = ''Reduce verbosity of warnings in plan output for cleaner logs.'',
     cmd = ''terraform plan -compact-warnings -out=plan.tfplan'',
     example = ''terraform plan -compact-warnings -out=plan.tfplan'',
     tf_link = ''https://developer.hashicorp.com/terraform/cli/commands/plan'',
     category = ''Miscellaneous & tips'',
     score = None\<rparr>,
    \<lparr>id_field = ''fmt_recursive'',
     title = ''terraform fmt -recursive'',
     desc = ''Recursively format all .tf files under a directory.'',
     cmd = ''terraform fmt -recursive'',
     example = ''terraform fmt -recursive'',
     tf_link = ''https://developer.hashicorp.com/terraform/cli/commands/fmt'',
     category = ''Miscellaneous & tips'',
     score = None\<rparr>,
    \<lparr>id_field = ''force_unlock_misc'',
     title = ''terraform force-unlock'',
     desc = ''Manually unlock the state using the lock ID to recover from stuck locks.'',
     cmd = ''terraform force-unlock LOCK_ID'',
     example = ''terraform force-unlock 1234-abcd-5678'',
     tf_link = ''https://developer.hashicorp.com/terraform/cli/commands/force-unlock'',
     category = ''Miscellaneous & tips'',
     score = None\<rparr>]\<close>

section \<open>The strings of the page script\<close>

text \<open>
  \<open>String.prototype.toLowerCase\<close>, \<open>trim\<close> and \<open>includes\<close>, on the code points the
  model has. Lower-casing adds 32 to the capital letters of Basic Latin and of Latin-1
  (U+00D7, the multiplication sign, has no case). \<open>trim\<close> removes the white space and line
  terminators of ECMAScript from both ends: tab, line feed, vertical tab, form feed,
  carriage return, space and no-break space.
\<close>

definition lower_char :: "char \<Rightarrow> char" where
  "lower_char c =
     (let n = (of_char c :: nat)
      in if (65 \<le> n \<and> n \<le> 90) \<or> (192 \<le> n \<and> n \<le> 222 \<and> n \<noteq> 215)
         then char_of (n + 32) else c)"

definition toLowerCase :: "string \<Rightarrow> string" where
  "toLowerCase s = map lower_char s"

definition is_white_space :: "char \<Rightarrow> bool" where
  "is_white_space c = ((of_char c :: nat) \<in> {9, 10, 11, 12, 13, 32, 160})"

definition trim :: "string \<Rightarrow> string" where
  "trim s = rev (dropWhile is_white_space (rev (dropWhile is_white_space s)))"

fun includes_str :: "string \<Rightarrow> string \<Rightarrow> bool" where
  "includes_str [] p = (p = [])"
| "includes_str (c # s) p = (prefix p (c # s) \<or> includes_str s p)"

section \<open>Filtering and sorting: the first half of \<open>refresh\<close>\<close>

text \<open>
  \<^verbatim>\<open>
  function refresh(filterText='') {
    const ft = filterText.trim().toLowerCase();
    const filtered = topics.filter(t => {
      if (!ft) return true;
      const combined = (t.title + ' ' + (t.desc || '') + ' ' + (t.cmd || '') + ' '
                        + (t.example || '')).toLowerCase();
      return combined.includes(ft);
    });
    filtered.sort((a,b)=> (b.score||0)-(a.score||0));
    buildCards(filtered);
  }
  \<close>
\<close>

definition combined :: "topic \<Rightarrow> string" where
  "combined t = toLowerCase (title t @ '' '' @ desc t @ '' '' @ cmd t @ '' '' @ example t)"

definition matches :: "string \<Rightarrow> topic \<Rightarrow> bool" where
  "matches ft t = (if ft = [] then True else includes_str (combined t) ft)"

text \<open>\<open>t.score || 0\<close>: a missing score counts as zero (and a score of zero is zero).\<close>

definition score_or_zero :: "topic \<Rightarrow> int" where
  "score_or_zero t = (case score t of None \<Rightarrow> 0 | Some s \<Rightarrow> s)"

definition compare_score :: "topic \<Rightarrow> topic \<Rightarrow> int" where
  "compare_score a b = score_or_zero b - score_or_zero a"

text \<open>
  \<open>Array.prototype.sort\<close> with a comparison function. ECMAScript requires the sort to be
  stable, and with a consistent comparison every stable sort returns the same array, so
  the model is insertion sort: an element goes in front of the first element it does not
  compare greater than.
\<close>

fun sort_insert :: "('a \<Rightarrow> 'a \<Rightarrow> int) \<Rightarrow> 'a \<Rightarrow> 'a list \<Rightarrow> 'a list" where
  "sort_insert cmp x [] = [x]"
| "sort_insert cmp x (y # ys) =
     (if cmp x y \<le> 0 then x # y # ys else y # sort_insert cmp x ys)"

definition array_sort :: "('a \<Rightarrow> 'a \<Rightarrow> int) \<Rightarrow> 'a list \<Rightarrow> 'a list" where
  "array_sort cmp xs = foldr (sort_insert cmp) xs []"

definition filtered :: "string \<Rightarrow> topic list \<Rightarrow> topic list" where
  "filtered filterText topics =
     (let ft = toLowerCase (trim filterText)
      in array_sort compare_score (filter (matches ft) topics))"

section \<open>Rendering: \<open>buildCards\<close>\<close>

text \<open>
  The children that \<open>buildCards\<close> appends to the \<open>#cards\<close> container are section headers
  and cards. A header carries the text of its pill. A card carries the markup assigned
  to the \<open>innerHTML\<close> of its left column (the template literal with the title and the
  description spliced in as they are), the score badge (the right column, present
  when \<open>t.score\<close> is truthy), the link of the docs button, the text of the toggle
  button, the \<open>display\<close> style of the example wrapper and, when \<open>t.cmd || t.example\<close>,
  the text of the code block and of the copy button. The text of the code block is
  \<open>(t.cmd ? t.cmd + '\n' : '') + (t.example ? t.example : '')\<close>: the Python template
  writes the escape as \<open>'\\n'\<close>, which reaches the script as a line feed. Colours and CSS
  classes (\<open>hueForString\<close>, \<open>categoryGradient\<close>, \<open>colorForScore\<close>) are left out.
\<close>

record card =
  left_innerHTML :: string
  score_badge :: "int option"
  docs_href :: string
  toggle_innerText :: string
  example_display :: string
  cmdBlock :: "string option"
  copyBtn :: "string option"

datatype node = SectionHeader string | CommandCard card

definition pill_innerText :: "string \<Rightarrow> string" where
  "pill_innerText c = ''# '' @ c"

definition createCard :: "topic \<Rightarrow> card" where
  "createCard t =
     \<lparr>left_innerHTML =
        ''<h6 style='' @ [CHR 0x22] @ ''margin-bottom:.25rem'' @ [CHR 0x22] @ ''>'' @ title t
          @ ''</h6><p style='' @ [CHR 0x22] @ ''margin:0; opacity:.85'' @ [CHR 0x22] @ ''>''
          @ desc t @ ''</p>'',
      score_badge = (case score t of None \<Rightarrow> None | Some s \<Rightarrow> if s \<noteq> 0 then Some s else None),
      docs_href = (if tf_link t \<noteq> [] then tf_link t else ''#''),
      toggle_innerText = ''Show example'',
      example_display = ''none'',
      cmdBlock = (if cmd t \<noteq> [] \<or> example t \<noteq> []
                  then Some ((if cmd t \<noteq> [] then cmd t @ ''\<newline>'' else []) @ example t)
                  else None),
      copyBtn = (if cmd t \<noteq> [] \<or> example t \<noteq> [] then Some ''Copy'' else None)\<rparr>"

text \<open>
  The body of \<open>filtered.forEach\<close>, on the pair of \<open>seenCategories\<close> and the children of
  the container: a header first when the topic has a category that has not been seen,
  then the card.
\<close>

fun forEach_body :: "string set \<times> node list \<Rightarrow> topic \<Rightarrow> string set \<times> node list" where
  "forEach_body (seenCategories, container) t =
     (let (seenCategories', container') =
            (if category t \<noteq> [] \<and> category t \<notin> seenCategories
             then (insert (category t) seenCategories,
                   container @ [SectionHeader (pill_innerText (category t))])
             else (seenCategories, container))
      in (seenCategories', container' @ [CommandCard (createCard t)]))"

definition buildCards :: "topic list \<Rightarrow> node list" where
  "buildCards filtered_topics = snd (foldl forEach_body ({}, []) filtered_topics)"

definition refresh :: "string \<Rightarrow> topic list \<Rightarrow> node list" where
  "refresh filterText topics = buildCards (filtered filterText topics)"

section \<open>Events on a rendered page\<close>

text \<open>
  The state between two renders: the children of the container, the system clipboard and
  the pending \<open>setTimeout\<close> callbacks in the order they were set. Each callback assigns a
  text to the copy button of one card, named by its position in the container, after a
  delay in milliseconds. All delays are equal, so the callbacks run in this order.
\<close>

record page =
  nodes :: "node list"
  clipboard :: string
  timeouts :: "(nat \<times> nat \<times> string) list"

definition initial_page :: "topic list \<Rightarrow> string \<Rightarrow> page" where
  "initial_page filtered_topics clip =
     \<lparr>nodes = buildCards filtered_topics, clipboard = clip, timeouts = []\<rparr>"

text \<open>The click listener of the toggle button of the card at position \<open>i\<close>.\<close>

definition toggle_listener :: "card \<Rightarrow> card" where
  "toggle_listener c =
     (if example_display c = ''none''
      then c\<lparr>example_display := ''block'', toggle_innerText := ''Hide example''\<rparr>
      else c\<lparr>example_display := ''none'', toggle_innerText := ''Show example''\<rparr>)"

definition toggle_click :: "nat \<Rightarrow> page \<Rightarrow> page" where
  "toggle_click i p =
     (if i < length (nodes p)
      then (case nodes p ! i of
              CommandCard c \<Rightarrow> p\<lparr>nodes := (nodes p)[i := CommandCard (toggle_listener c)]\<rparr>
            | SectionHeader h \<Rightarrow> p)
      else p)"

text \<open>
  \<^verbatim>\<open>
  function copyToClipboard(text, btn) {
    navigator.clipboard.writeText(text).then(() => {
      const prev = btn.innerText;
      btn.innerText = 'Copied';
      setTimeout(()=> btn.innerText = prev, 1200);
    }).catch(()=> {
      btn.innerText = 'Copy failed';
      setTimeout(()=> btn.innerText = 'Copy', 1200);
    });
  }
  \<close>
  The promise of \<open>writeText\<close> is either fulfilled, and then the clipboard holds the text,
  or rejected, and then the clipboard is as before. The click and the settling of its
  promise are one step of the model.
\<close>

datatype write_result = Fulfilled | Rejected

definition btn_innerText :: "node list \<Rightarrow> nat \<Rightarrow> string option" where
  "btn_innerText ns i =
     (if i < length ns
      then (case ns ! i of CommandCard c \<Rightarrow> copyBtn c | SectionHeader h \<Rightarrow> None)
      else None)"

definition set_btn_innerText :: "nat \<Rightarrow> string \<Rightarrow> node list \<Rightarrow> node list" where
  "set_btn_innerText i txt ns =
     (if i < length ns
      then (case ns ! i of
              CommandCard c \<Rightarrow>
                (case copyBtn c of
                   Some old \<Rightarrow> ns[i := CommandCard (c\<lparr>copyBtn := Some txt\<rparr>)]
                 | None \<Rightarrow> ns)
            | SectionHeader h \<Rightarrow> ns)
      else ns)"

definition copyToClipboard :: "string \<Rightarrow> nat \<Rightarrow> write_result \<Rightarrow> page \<Rightarrow> page" where
  "copyToClipboard text btn r p =
     (case r of
        Fulfilled \<Rightarrow>
          (case btn_innerText (nodes p) btn of
             Some prev \<Rightarrow>
               p\<lparr>clipboard := text,
                 nodes := set_btn_innerText btn ''Copied'' (nodes p),
                 timeouts := timeouts p @ [(1200, btn, prev)]\<rparr>
           | None \<Rightarrow> p\<lparr>clipboard := text\<rparr>)
      | Rejected \<Rightarrow>
          p\<lparr>nodes := set_btn_innerText btn ''Copy failed'' (nodes p),
            timeouts := timeouts p @ [(1200, btn, ''Copy'')]\<rparr>)"

text \<open>
  \<open>copyBtn.onclick = () => copyToClipboard(cmdBlock.textContent, copyBtn)\<close>: only a card
  with a code block has a copy button to click.
\<close>

definition copy_click :: "nat \<Rightarrow> write_result \<Rightarrow> page \<Rightarrow> page" where
  "copy_click i r p =
     (if i < length (nodes p)
      then (case nodes p ! i of
              CommandCard c \<Rightarrow>
                (case (cmdBlock c, copyBtn c) of
                   (Some text, Some l) \<Rightarrow> copyToClipboard text i r p
                 | _ \<Rightarrow> p)
            | SectionHeader h \<Rightarrow> p)
      else p)"

text \<open>Running every pending callback, oldest first.\<close>

definition run_timeouts :: "page \<Rightarrow> page" where
  "run_timeouts p =
     p\<lparr>nodes := foldl (\<lambda>ns (delay, btn, txt). set_btn_innerText btn txt ns) (nodes p) (timeouts p),
       timeouts := []\<rparr>"

text \<open>
  The loop of \<open>buildCards\<close> from an intermediate state: what is appended to the
  container for the remaining topics when \<open>seen\<close> holds the categories seen so far.
\<close>

fun render_from :: "string set \<Rightarrow> topic list \<Rightarrow> node list" where
  "render_from seen [] = []"
| "render_from seen (t # ts) =
     (if category t \<noteq> [] \<and> category t \<notin> seen
      then SectionHeader (pill_innerText (category t)) # CommandCard (createCard t)
             # render_from (insert (category t) seen) ts
      else CommandCard (createCard t) # render_from seen ts)"

section \<open>Notions of the specification\<close>

text \<open>The headers and the cards of a rendered container, in document order.\<close>

fun headers_of :: "node list \<Rightarrow> string list" where
  "headers_of [] = []"
| "headers_of (SectionHeader h # ns) = h # headers_of ns"
| "headers_of (CommandCard c # ns) = headers_of ns"

fun cards_of :: "node list \<Rightarrow> card list" where
  "cards_of [] = []"
| "cards_of (SectionHeader h # ns) = cards_of ns"
| "cards_of (CommandCard c # ns) = c # cards_of ns"

text \<open>The distinct values of a list in the order of their first occurrence.\<close>

fun first_seen :: "'a list \<Rightarrow> 'a list" where
  "first_seen [] = []"
| "first_seen (x # xs) = x # removeAll x (first_seen xs)"

text \<open>
  A list is grouped when equal values are adjacent: once the run of a value has ended,
  the value does not come back.
\<close>

fun grouped :: "'a list \<Rightarrow> bool" where
  "grouped [] = True"
| "grouped (x # xs) = (x \<notin> set (dropWhile (\<lambda>y. y = x) xs) \<and> grouped xs)"

text \<open>
  The presentation the specification describes: the categories in first-seen order, each
  with its one header followed by all the cards of that category. The topics without a
  category form a group of their own, which has no header.
\<close>

definition group_of :: "topic list \<Rightarrow> string \<Rightarrow> node list" where
  "group_of vm c =
     (if c = [] then [] else [SectionHeader (pill_innerText c)])
       @ map (\<lambda>t. CommandCard (createCard t)) (filter (\<lambda>t. category t = c) vm)"

definition grouped_render :: "topic list \<Rightarrow> node list" where
  "grouped_render vm = concat (map (group_of vm) (first_seen (map category vm)))"

text \<open>
  The containment check of the specification: the filter string occurs, ignoring case, in
  at least one of the four text fields of the topic.
\<close>

definition field_contains :: "string \<Rightarrow> topic \<Rightarrow> bool" where
  "field_contains f t =
     (includes_str (toLowerCase (title t)) (toLowerCase f)
      \<or> includes_str (toLowerCase (desc t)) (toLowerCase f)
      \<or> includes_str (toLowerCase (cmd t)) (toLowerCase f)
      \<or> includes_str (toLowerCase (example t)) (toLowerCase f))"

text \<open>
  Small catalogs for the concrete scenarios: three scored topics of one category, six
  topics with equal, missing and zero scores, three topics whose categories alternate,
  and one topic without a category.
\<close>

definition example_topic :: "string \<Rightarrow> string \<Rightarrow> int option \<Rightarrow> topic" where
  "example_topic name cat sc =
     \<lparr>id_field = name,
      title = ''terraform '' @ name,
      desc = [],
      cmd = ''terraform '' @ name,
      example = ''terraform '' @ name @ '' -upgrade'',
      tf_link = [],
      category = cat,
      score = sc\<rparr>"

definition scored_catalog :: "topic list" where
  "scored_catalog =
     [example_topic ''init'' ''Basic'' (Some 90),
      example_topic ''plan'' ''Basic'' (Some 95),
      example_topic ''apply'' ''Basic'' (Some 85)]"

definition ranked_catalog :: "topic list" where
  "ranked_catalog =
     [example_topic ''validate'' ''Basic'' None,
      example_topic ''plan'' ''Basic'' (Some 5),
      example_topic ''init'' ''Basic'' (Some 7),
      example_topic ''apply'' ''Basic'' (Some 5),
      example_topic ''list'' ''State'' (Some 0),
      example_topic ''pull'' ''State'' (Some 9)]"

definition scattered_catalog :: "topic list" where
  "scattered_catalog =
     [example_topic ''init'' ''Basic'' None,
      example_topic ''state'' ''State'' None,
      example_topic ''plan'' ''Basic'' None]"

definition uncategorised_catalog :: "topic list" where
  "uncategorised_catalog = [example_topic ''version'' [] None]"

section \<open>Substring search and the sort\<close>

lemma includes_str_iff: "includes_str s p \<longleftrightarrow> (\<exists>u v. s = u @ p @ v)"
proof (induction s)
  case Nil
  then show ?case by auto
next
  case (Cons c s)
  show ?case
  proof
    assume "includes_str (c # s) p"
    then consider "prefix p (c # s)" | "includes_str s p" by auto
    then show "\<exists>u v. c # s = u @ p @ v"
    proof cases
      case 1
      then obtain v where "c # s = p @ v" by (auto simp: prefix_def)
      then have "c # s = [] @ p @ v" by simp
      then show ?thesis by blast
    next
      case 2
      with Cons.IH obtain u v where "s = u @ p @ v" by blast
      then have "c # s = (c # u) @ p @ v" by simp
      then show ?thesis by blast
    qed
  next
    assume "\<exists>u v. c # s = u @ p @ v"
    then obtain u v where uv: "c # s = u @ p @ v" by blast
    show "includes_str (c # s) p"
    proof (cases u)
      case Nil
      with uv have "prefix p (c # s)" by (simp add: prefix_def)
      then show ?thesis by simp
    next
      case (Cons a u')
      with uv have "s = u' @ p @ v" by simp
      with Cons.IH have "includes_str s p" by blast
      then show ?thesis by simp
    qed
  qed
qed

lemma includes_str_append_left: "includes_str s p \<Longrightarrow> includes_str (a @ s @ b) p"
  unfolding includes_str_iff
proof -
  assume "\<exists>u v. s = u @ p @ v"
  then obtain u v where "s = u @ p @ v" by blast
  then have "a @ s @ b = (a @ u) @ p @ (v @ b)" by simp
  then show "\<exists>u v. a @ s @ b = u @ p @ v" by blast
qed

lemma sort_insert_insort:
  "sort_insert (\<lambda>a b. k b - k a) x ys = insort_key (\<lambda>t. - k t) x ys"
  by (induction ys) auto

lemma array_sort_sort_key:
  "array_sort (\<lambda>a b. k b - k a) xs = sort_key (\<lambda>t. - (k t :: int)) xs"
  by (induction xs) (auto simp: array_sort_def sort_insert_insort sort_key_def)

lemma array_sort_compare_score:
  "array_sort compare_score xs = sort_key (\<lambda>t. - score_or_zero t) xs"
proof -
  have "compare_score = (\<lambda>a b. score_or_zero b - score_or_zero a)"
    by (intro ext) (simp add: compare_score_def)
  show ?thesis unfolding \<open>compare_score = _\<close> by (rule array_sort_sort_key)
qed

lemma set_filtered:
  "set (filtered f C) = {t \<in> set C. matches (toLowerCase (trim f)) t}"
  by (simp add: filtered_def array_sort_compare_score)

lemma sort_insert_equal_keys:
  "\<forall>y \<in> set ys. cmp x y = 0 \<Longrightarrow> sort_insert cmp x ys = x # ys"
  by (cases ys) auto

lemma array_sort_equal_keys:
  "\<forall>x \<in> set xs. \<forall>y \<in> set xs. cmp x y = 0 \<Longrightarrow> array_sort cmp xs = xs"
  by (induction xs) (auto simp: array_sort_def sort_insert_equal_keys)

lemma TOPICS_score: "list_all (\<lambda>t. score t = None) TOPICS"
  by (simp add: TOPICS_def)

section \<open>The render loop\<close>

lemma foldl_forEach_body:
  "snd (foldl forEach_body (seen, out) ts) = out @ render_from seen ts"
  by (induction ts arbitrary: seen out) auto

lemma buildCards_render_from: "buildCards vm = render_from {} vm"
  by (simp add: buildCards_def foldl_forEach_body)

lemma cards_of_render_from: "cards_of (render_from seen ts) = map createCard ts"
  by (induction ts arbitrary: seen) auto

lemma set_first_seen: "set (first_seen xs) = set xs"
  by (induction xs) auto

lemma distinct_first_seen: "distinct (first_seen xs)"
  by (induction xs) (auto simp: distinct_removeAll)

lemma filter_removeAll_seen:
  "filter (\<lambda>c. c \<noteq> x \<and> c \<notin> seen) ys = filter (\<lambda>c. c \<notin> seen) (removeAll x ys)"
  by (induction ys) auto

lemma filter_removeAll_in_seen:
  "x \<in> seen \<Longrightarrow> filter (\<lambda>c. c \<notin> seen) (removeAll x ys) = filter (\<lambda>c. c \<notin> seen) ys"
  by (induction ys) auto

lemma headers_of_render_from:
  "headers_of (render_from seen ts) =
     map pill_innerText
       (filter (\<lambda>c. c \<notin> seen) (first_seen (filter (\<lambda>c. c \<noteq> []) (map category ts))))"
proof (induction ts arbitrary: seen)
  case Nil
  then show ?case by simp
next
  case (Cons t ts)
  show ?case
  proof (cases "category t = []")
    case True
    then show ?thesis by (simp add: Cons.IH)
  next
    case False
    show ?thesis
    proof (cases "category t \<in> seen")
      case True
      with False show ?thesis
        by (simp add: Cons.IH filter_removeAll_in_seen)
    next
      case notin: False
      with False show ?thesis
        by (simp add: Cons.IH filter_removeAll_seen)
    qed
  qed
qed

lemma inj_pill: "inj pill_innerText"
  by (simp add: inj_def pill_innerText_def)

lemma render_from_positions:
  "render_from seen ts =
     concat (map (\<lambda>i. (if category (ts ! i) \<noteq> [] \<and> category (ts ! i) \<notin> seen \<union> category ` set (take i ts)
                        then [SectionHeader (pill_innerText (category (ts ! i)))] else [])
                       @ [CommandCard (createCard (ts ! i))]) [0..<length ts])"
proof (induction ts arbitrary: seen)
  case Nil
  then show ?case by simp
next
  case (Cons t ts)
  let ?emit = "\<lambda>S us i. (if category (us ! i) \<noteq> [] \<and> category (us ! i) \<notin> S \<union> category ` set (take i us)
                        then [SectionHeader (pill_innerText (category (us ! i)))] else [])
                       @ [CommandCard (createCard (us ! i))]"
  have upt: "[0..<length (t # ts)] = 0 # map Suc [0..<length ts]"
    by (simp add: upt_conv_Cons map_Suc_upt del: upt_Suc)
  have shift: "map (?emit seen (t # ts)) (map Suc [0..<length ts])
                 = map (?emit (if category t \<noteq> [] \<and> category t \<notin> seen then insert (category t) seen else seen) ts) [0..<length ts]"
    by (rule map_cong[OF refl, THEN trans[OF map_map]]) auto
  show ?case
    unfolding upt by (simp only: list.map concat.simps shift) (simp add: Cons.IH)
qed

section \<open>Grouped view models\<close>

lemma render_from_seen_only:
  "\<forall>t \<in> set ts. category t = [] \<or> category t \<in> seen \<Longrightarrow>
     render_from seen ts = map (\<lambda>t. CommandCard (createCard t)) ts"
  by (induction ts) auto

lemma render_from_insert_empty: "render_from (insert [] seen) ts = render_from seen ts"
  by (induction ts arbitrary: seen) (auto simp: insert_commute)

lemma render_from_append_seen:
  "\<forall>t \<in> set xs. category t = [] \<or> category t \<in> seen \<Longrightarrow>
     render_from seen (xs @ ys) = map (\<lambda>t. CommandCard (createCard t)) xs @ render_from seen ys"
  by (induction xs) auto

lemma grouped_dropWhile: "grouped xs \<Longrightarrow> grouped (dropWhile P xs)"
  by (induction xs) auto

lemma removeAll_first_seen_run:
  "\<forall>x \<in> set xs. x = c \<Longrightarrow> removeAll c (first_seen (xs @ ys)) = removeAll c (first_seen ys)"
  by (induction xs) auto

lemma filter_run:
  "\<forall>t \<in> set xs. category t = c \<Longrightarrow> filter (\<lambda>t. category t = c) xs = xs"
  by (induction xs) auto

lemma filter_other:
  "c \<notin> category ` set xs \<Longrightarrow> filter (\<lambda>t. category t = c) xs = []"
  by (induction xs) auto

lemma render_from_grouped:
  "grouped (map category ts) \<Longrightarrow> \<forall>t \<in> set ts. category t \<notin> seen \<Longrightarrow>
     render_from seen ts = grouped_render ts"
proof (induction "length ts" arbitrary: ts seen rule: less_induct)
  case less
  show ?case
  proof (cases ts)
    case Nil
    then show ?thesis by (simp add: grouped_render_def)
  next
    case (Cons t rest)
    define c where "c = category t"
    define run where "run = takeWhile (\<lambda>u. category u = c) rest"
    define rest' where "rest' = dropWhile (\<lambda>u. category u = c) rest"
    define hdr where "hdr = (if c = [] then [] else [SectionHeader (pill_innerText c)])"
    have rest: "rest = run @ rest'"
      by (simp add: run_def rest'_def)
    have run: "\<forall>u \<in> set run. category u = c"
      by (auto simp: run_def dest: set_takeWhileD)
    have drop_map: "dropWhile (\<lambda>y. y = c) (map category rest) = map category rest'"
      by (simp add: rest'_def dropWhile_map comp_def)
    from less.prems(1) have g: "c \<notin> set (map category rest')" "grouped (map category rest)"
      by (simp_all add: Cons c_def[symmetric] drop_map)
    from g(2) have g': "grouped (map category rest')"
      using grouped_dropWhile[of "map category rest" "\<lambda>y. y = c"] by (simp add: drop_map)
    have c: "c \<notin> seen"
      using less.prems(2) by (simp add: Cons c_def)
    have fresh: "\<forall>u \<in> set rest'. category u \<notin> insert c seen"
      using less.prems(2) g(1) by (auto simp: Cons rest)
    have "length rest' < length ts"
      by (simp add: Cons rest)
    from less.hyps[OF this g' fresh]
    have IH: "render_from (insert c seen) rest' = grouped_render rest'" .
    have lhs: "render_from seen ts =
        hdr @ CommandCard (createCard t)
          # map (\<lambda>t. CommandCard (createCard t)) run @ grouped_render rest'"
    proof (cases "c = []")
      case True
      have "render_from seen rest' = grouped_render rest'"
        using IH render_from_insert_empty[of seen rest'] by (simp add: True)
      with True run show ?thesis
        by (simp add: Cons c_def[symmetric] hdr_def rest render_from_append_seen)
    next
      case False
      with c run show ?thesis
        by (simp add: Cons c_def[symmetric] hdr_def rest render_from_append_seen IH)
    qed
    have fs: "first_seen (map category ts) = c # first_seen (map category rest')"
    proof -
      have "removeAll c (first_seen (map category run @ map category rest'))
              = removeAll c (first_seen (map category rest'))"
        using run by (intro removeAll_first_seen_run) auto
      also have "\<dots> = first_seen (map category rest')"
        using g(1) by (simp add: set_first_seen)
      finally show ?thesis by (simp add: Cons c_def[symmetric] rest)
    qed
    have grp_c: "group_of ts c =
        hdr @ CommandCard (createCard t) # map (\<lambda>t. CommandCard (createCard t)) run"
      using g(1)
      by (simp add: group_of_def hdr_def Cons c_def[symmetric] rest filter_run[OF run] filter_other)
    have grp_other: "group_of ts c' = group_of rest' c'" if "c' \<in> set (map category rest')" for c'
    proof -
      from that g(1) have ne: "c' \<noteq> c" by auto
      then have "filter (\<lambda>t. category t = c') run = []"
        using run by (induction run) auto
      with ne show ?thesis
        by (auto simp add: group_of_def Cons c_def[symmetric] rest)
    qed
    have meq: "map (group_of ts) (first_seen (map category rest'))
            = map (group_of rest') (first_seen (map category rest'))"
      by (rule map_cong[OF refl]) (simp add: grp_other set_first_seen)
    have rhs: "grouped_render ts = group_of ts c @ grouped_render rest'"
      by (simp only: grouped_render_def fs list.map concat.simps meq)
    show ?thesis by (simp add: lhs rhs grp_c)
  qed
qed

lemma set_dropWhile_map_filter:
  "set (dropWhile Q (map f (filter P xs))) \<subseteq> set (dropWhile Q (map f xs))"
proof (induction xs)
  case Nil
  then show ?case by simp
next
  case (Cons x xs)
  have "set (dropWhile Q (map f xs)) \<subseteq> set (map f xs)"
    by (auto dest: set_dropWhileD)
  with Cons show ?case by auto
qed

lemma grouped_map_filter: "grouped (map f xs) \<Longrightarrow> grouped (map f (filter P xs))"
proof (induction xs)
  case Nil
  then show ?case by simp
next
  case (Cons x xs)
  then show ?case using set_dropWhile_map_filter[of "\<lambda>y. y = f x" f P xs] by auto
qed

lemma TOPICS_categories_grouped: "grouped (map category TOPICS)"
  by (simp add: TOPICS_def)

section \<open>Buttons and timeouts\<close>

lemma length_set_btn [simp]: "length (set_btn_innerText j txt ns) = length ns"
  by (simp add: set_btn_innerText_def split: node.splits option.splits)

lemma btn_set_same:
  "btn_innerText ns i = Some l \<Longrightarrow> btn_innerText (set_btn_innerText i txt ns) i = Some txt"
  by (auto simp: btn_innerText_def set_btn_innerText_def split: if_splits node.splits option.splits)

lemma btn_set_keeps:
  "btn_innerText ns i \<noteq> None \<Longrightarrow> btn_innerText (set_btn_innerText j txt ns) i \<noteq> None"
  by (cases "i = j")
     (auto simp: btn_innerText_def set_btn_innerText_def split: if_splits node.splits option.splits)

lemma btn_foldl_keeps:
  "btn_innerText ns i \<noteq> None \<Longrightarrow>
     btn_innerText (foldl (\<lambda>ns (delay, btn, txt). set_btn_innerText btn txt ns) ns ts) i \<noteq> None"
proof (induction ts arbitrary: ns)
  case Nil
  then show ?case by simp
next
  case (Cons a ts)
  obtain d b tx where a: "a = (d, b, tx)" by (cases a)
  from Cons.prems have "btn_innerText (set_btn_innerText b tx ns) i \<noteq> None"
    by (rule btn_set_keeps)
  from Cons.IH[OF this] show ?case by (simp add: a)
qed

lemma btn_after_timeouts:
  assumes "btn_innerText ns i \<noteq> None"
  shows "btn_innerText (foldl (\<lambda>ns (delay, btn, txt). set_btn_innerText btn txt ns) ns (ts @ [(d, i, l)])) i = Some l"
proof -
  from assms obtain l' where
    "btn_innerText (foldl (\<lambda>ns (delay, btn, txt). set_btn_innerText btn txt ns) ns ts) i = Some l'"
    using btn_foldl_keeps[of ns i ts] by auto
  then show ?thesis by (simp add: btn_set_same)
qed

lemma btn_at_card:
  "i < length ns \<Longrightarrow> ns ! i = CommandCard c \<Longrightarrow> btn_innerText ns i = copyBtn c"
  by (simp add: btn_innerText_def)

lemma copy_click_card:
  "i < length (nodes p) \<Longrightarrow> nodes p ! i = CommandCard c \<Longrightarrow> cmdBlock c = Some text \<Longrightarrow>
     copyBtn c = Some l \<Longrightarrow> copy_click i r p = copyToClipboard text i r p"
  by (simp add: copy_click_def)

lemma toggle_listener_twice:
  "example_display c = ''none'' \<Longrightarrow> toggle_innerText c = ''Show example'' \<Longrightarrow>
     toggle_listener (toggle_listener c) = c"
  by (cases c) (simp add: toggle_listener_def)

lemma createCard_hidden:
  "example_display (createCard t) = ''none'' \<and> toggle_innerText (createCard t) = ''Show example''"
  by (simp add: createCard_def)

lemma nodes_cards_of:
  "i < length ns \<Longrightarrow> ns ! i = CommandCard c \<Longrightarrow> c \<in> set (cards_of ns)"
proof (induction ns arbitrary: i)
  case Nil
  then show ?case by simp
next
  case (Cons n ns)
  then show ?case by (cases i; cases n) auto
qed

lemma toggle_click_twice:
  assumes "i < length (nodes p)" "nodes p ! i = CommandCard c"
    "example_display c = ''none''" "toggle_innerText c = ''Show example''"
  shows "toggle_click i (toggle_click i p) = p"
proof -
  have 1: "toggle_click i p = p\<lparr>nodes := (nodes p)[i := CommandCard (toggle_listener c)]\<rparr>"
    using assms by (simp add: toggle_click_def)
  have "toggle_click i (toggle_click i p)
          = p\<lparr>nodes := (nodes p)[i := CommandCard (toggle_listener (toggle_listener c))]\<rparr>"
    using assms(1) unfolding 1 by (simp add: toggle_click_def)
  also have "\<dots> = p\<lparr>nodes := (nodes p)[i := nodes p ! i]\<rparr>"
    using assms by (simp add: toggle_listener_twice)
  also have "\<dots> = p" by simp
  finally show ?thesis .
qed

lemma toggle_click_not_card:
  "\<not> (i < length (nodes p) \<and> (\<exists>c. nodes p ! i = CommandCard c)) \<Longrightarrow> toggle_click i p = p"
  by (auto simp: toggle_click_def split: node.splits)

section \<open>The claims\<close>

lemmas string_eval =
  toLowerCase_def lower_char_def char_of_def bit_Suc_0_iff trim_def is_white_space_def

lemma length_TOPICS: "length TOPICS = 80"
  by (simp add: TOPICS_def)

lemma field_contains_combined:
  assumes "field_contains g t"
  shows "includes_str (combined t) (toLowerCase g)"
proof -
  let ?sp = "toLowerCase '' ''"
  have c1: "combined t = [] @ toLowerCase (title t)
      @ (?sp @ toLowerCase (desc t) @ ?sp @ toLowerCase (cmd t) @ ?sp @ toLowerCase (example t))"
    by (simp add: combined_def toLowerCase_def)
  have c2: "combined t = (toLowerCase (title t) @ ?sp) @ toLowerCase (desc t)
      @ (?sp @ toLowerCase (cmd t) @ ?sp @ toLowerCase (example t))"
    by (simp add: combined_def toLowerCase_def)
  have c3: "combined t = (toLowerCase (title t) @ ?sp @ toLowerCase (desc t) @ ?sp)
      @ toLowerCase (cmd t) @ (?sp @ toLowerCase (example t))"
    by (simp add: combined_def toLowerCase_def)
  have c4: "combined t = (toLowerCase (title t) @ ?sp @ toLowerCase (desc t) @ ?sp
      @ toLowerCase (cmd t) @ ?sp) @ toLowerCase (example t) @ []"
    by (simp add: combined_def toLowerCase_def)
  from assms consider
      (title) "includes_str (toLowerCase (title t)) (toLowerCase g)"
    | (desc) "includes_str (toLowerCase (desc t)) (toLowerCase g)"
    | (cmd) "includes_str (toLowerCase (cmd t)) (toLowerCase g)"
    | (example) "includes_str (toLowerCase (example t)) (toLowerCase g)"
    unfolding field_contains_def by blast
  then show ?thesis
  proof cases
    case title
    show ?thesis unfolding c1 by (rule includes_str_append_left[OF title])
  next
    case desc
    show ?thesis unfolding c2 by (rule includes_str_append_left[OF desc])
  next
    case cmd
    show ?thesis unfolding c3 by (rule includes_str_append_left[OF cmd])
  next
    case example
    show ?thesis unfolding c4 by (rule includes_str_append_left[OF example])
  qed
qed

lemma trim_inside: "\<exists>a b. f = a @ trim f @ b"
proof -
  let ?g = "dropWhile is_white_space f"
  have "rev (dropWhile is_white_space (rev ?g)) @ rev (takeWhile is_white_space (rev ?g))
          = rev (takeWhile is_white_space (rev ?g) @ dropWhile is_white_space (rev ?g))"
    by (simp only: rev_append)
  also have "\<dots> = rev (rev ?g)"
    by (simp only: takeWhile_dropWhile_id)
  also have "\<dots> = ?g"
    by (simp only: rev_rev_ident)
  finally have "?g = trim f @ rev (takeWhile is_white_space (rev ?g))"
    by (simp only: trim_def)
  then have "takeWhile is_white_space f @ ?g
      = takeWhile is_white_space f @ trim f @ rev (takeWhile is_white_space (rev ?g))"
    by simp
  then have "f = takeWhile is_white_space f @ trim f @ rev (takeWhile is_white_space (rev ?g))"
    by simp
  then show ?thesis by blast
qed

lemma includes_str_trim:
  assumes "includes_str s (toLowerCase f)"
  shows "includes_str s (toLowerCase (trim f))"
proof -
  obtain a b where f: "f = a @ trim f @ b"
    using trim_inside by blast
  from assms obtain u v where "s = u @ toLowerCase f @ v"
    unfolding includes_str_iff by blast
  then have "s = u @ toLowerCase (a @ trim f @ b) @ v"
    using f by simp
  then have "s = (u @ toLowerCase a) @ toLowerCase (trim f) @ (toLowerCase b @ v)"
    by (simp add: toLowerCase_def)
  then show ?thesis
    unfolding includes_str_iff by blast
qed

lemma field_contains_trim: "field_contains f t \<Longrightarrow> field_contains (trim f) t"
  unfolding field_contains_def by (blast intro: includes_str_trim)

text \<open>
  Claim C1, as the code has it. A topic of the catalog is in the filtered result if and
  only if the filter string, trimmed and lower-cased, is empty or occurs as a substring of
  the lower-cased text \<open>title + ' ' + desc + ' ' + cmd + ' ' + example\<close>. Every topic
  one of whose four fields contains the filter string (or the trimmed filter string),
  ignoring case, is in the result, so every excluded topic fails the per-field check; the
  match is against the joined text, so a topic in the result may match across two fields
  only.
\<close>

theorem filter_membership:
  "(t \<in> set (filtered f C) \<longleftrightarrow>
      t \<in> set C \<and> (toLowerCase (trim f) = []
                    \<or> (\<exists>u v. combined t = u @ toLowerCase (trim f) @ v)))
   \<and> (t \<in> set C \<and> (field_contains f t \<or> field_contains (trim f) t)
        \<longrightarrow> t \<in> set (filtered f C))"
proof (intro conjI impI)
  show "t \<in> set (filtered f C) \<longleftrightarrow>
      t \<in> set C \<and> (toLowerCase (trim f) = []
                    \<or> (\<exists>u v. combined t = u @ toLowerCase (trim f) @ v))"
    by (simp add: set_filtered matches_def includes_str_iff)
next
  assume a: "t \<in> set C \<and> (field_contains f t \<or> field_contains (trim f) t)"
  then have "field_contains (trim f) t"
    using field_contains_trim by blast
  then have "includes_str (combined t) (toLowerCase (trim f))"
    by (rule field_contains_combined)
  with a show "t \<in> set (filtered f C)"
    by (simp add: set_filtered matches_def)
qed

text \<open>
  The scenario of the specification on the embedded catalog: the filter \<open>State\<close> keeps
  the topic \<open>state_list\<close> (entry 10) and drops the topic \<open>version\<close> (entry 8).
\<close>

theorem filter_membership_witness:
  "TOPICS ! 10 \<in> set (filtered ''State'' TOPICS) \<and> TOPICS ! 8 \<notin> set (filtered ''State'' TOPICS)"
proof -
  have fc: "field_contains (trim ''State'') (TOPICS ! 10)"
    by (simp add: TOPICS_def field_contains_def string_eval)
  have mem: "TOPICS ! 10 \<in> set TOPICS"
    by (simp add: length_TOPICS)
  have ft: "toLowerCase (trim ''State'') = ''state''"
    by (simp add: string_eval)
  have no: "\<not> includes_str (combined (TOPICS ! 8)) ''state''"
    by (simp add: TOPICS_def combined_def string_eval)
  from filter_membership[of "TOPICS ! 10" "''State''" TOPICS] fc mem
  have yes: "TOPICS ! 10 \<in> set (filtered ''State'' TOPICS)" by blast
  from filter_membership[of "TOPICS ! 8" "''State''" TOPICS] no
  have "TOPICS ! 8 \<notin> set (filtered ''State'' TOPICS)"
    unfolding ft includes_str_iff by blast
  with yes show ?thesis by blast
qed

text \<open>
  Claim C1 as stated fails on the embedded catalog: the filter \<open>init initialize\<close> keeps
  the topic \<open>init\<close> (entry 0), whose title ends with \<open>init\<close> and whose description
  starts with \<open>Initialize\<close>, although none of its four fields contains the filter string.
\<close>

theorem filter_per_field_counterexample:
  "TOPICS ! 0 \<in> set (filtered ''init initialize'' TOPICS)
   \<and> \<not> field_contains ''init initialize'' (TOPICS ! 0)"
proof -
  have ft: "toLowerCase (trim ''init initialize'') = ''init initialize''"
    by (simp add: string_eval)
  have m: "matches ''init initialize'' (TOPICS ! 0)"
    by (simp add: TOPICS_def matches_def combined_def string_eval)
  have mem: "TOPICS ! 0 \<in> set TOPICS"
    by (simp add: length_TOPICS)
  have no: "\<not> field_contains ''init initialize'' (TOPICS ! 0)"
    by (simp add: TOPICS_def field_contains_def string_eval)
  from m mem have "TOPICS ! 0 \<in> set (filtered ''init initialize'' TOPICS)"
    by (simp add: set_filtered ft)
  with no show ?thesis by blast
qed

lemmas example_eval =
  scored_catalog_def scattered_catalog_def uncategorised_catalog_def example_topic_def
  filtered_def array_sort_def compare_score_def score_or_zero_def matches_def

lemma trim_blank:
  assumes "\<forall>c \<in> set f. is_white_space c"
  shows "trim f = []"
proof -
  from assms have blank: "dropWhile is_white_space f = []"
    by (rule iffD2[OF dropWhile_eq_Nil_conv])
  show ?thesis unfolding trim_def blank by simp
qed

lemma sorted_desc_filtered:
  "sorted_wrt (\<lambda>a b. score_or_zero a \<ge> score_or_zero b) (filtered f C)"
proof -
  have "sorted (map (\<lambda>t. - score_or_zero t) (filtered f C))"
    by (simp add: filtered_def array_sort_compare_score)
  then show ?thesis by (simp add: sorted_map)
qed

lemma stable_filtered:
  "filter (\<lambda>t. score_or_zero t = k) (filtered f C)
     = filter (\<lambda>t. score_or_zero t = k) (filter (matches (toLowerCase (trim f))) C)"
proof -
  have "filter (\<lambda>t. - score_or_zero t = - k) (sort_key (\<lambda>t. - score_or_zero t) xs)
          = filter (\<lambda>t. - score_or_zero t = - k) xs" for xs :: "topic list"
    by (rule sort_key_stable)
  then show ?thesis by (simp add: filtered_def array_sort_compare_score)
qed

text \<open>
  Claim C2. For a filter string that is empty or consists of white space only, the result
  is the whole catalog sorted by the score comparison: it has the same topics as the
  catalog, scores descend, and the topics of each score are in catalog order.
\<close>

theorem blank_filter_returns_all:
  assumes "\<forall>c \<in> set f. is_white_space c"
  shows "filtered f C = array_sort compare_score C
       \<and> mset (filtered f C) = mset C
       \<and> sorted_wrt (\<lambda>a b. score_or_zero a \<ge> score_or_zero b) (filtered f C)
       \<and> (\<forall>k. filter (\<lambda>t. score_or_zero t = k) (filtered f C)
                = filter (\<lambda>t. score_or_zero t = k) C)"
proof -
  from assms have ft: "toLowerCase (trim f) = []"
    by (simp add: trim_blank toLowerCase_def)
  have all: "filter (matches []) C = C"
    by (simp add: matches_def)
  have 1: "filtered f C = array_sort compare_score C"
    by (simp add: filtered_def ft all)
  have 2: "mset (filtered f C) = mset C"
    by (simp add: 1 array_sort_compare_score)
  have 4: "filter (\<lambda>t. score_or_zero t = k) (filtered f C)
             = filter (\<lambda>t. score_or_zero t = k) C" for k
    using stable_filtered[of k f C] by (simp add: ft all)
  from 1 2 sorted_desc_filtered[of f C] 4 show ?thesis by blast
qed

text \<open>
  The scenario of the specification: with the scores 90, 95 and 85 for \<open>init\<close>,
  \<open>plan\<close> and \<open>apply\<close>, a filter of a tab and a space yields \<open>plan, init, apply\<close>.
\<close>

theorem blank_filter_returns_all_witness:
  "map id_field (filtered [CHR 0x09, CHR '' ''] scored_catalog) = [''plan'', ''init'', ''apply'']"
proof -
  have h: "\<forall>c \<in> set [CHR 0x09, CHR '' '']. is_white_space c"
    by (simp add: is_white_space_def)
  have "map id_field (array_sort compare_score scored_catalog) = [''plan'', ''init'', ''apply'']"
    by (simp add: example_eval)
  with blank_filter_returns_all[OF h, of scored_catalog] show ?thesis by simp
qed

text \<open>
  Claim C3. For every filter string the result is the stable sort, by descending score
  with a missing score counted as zero, of the matching topics in catalog order. So it
  is a subsequence of the catalog sorted in that way; scores descend along the result;
  and the topics of each score are the matching topics of that score in catalog order.
  The score is written out here as the claim has it, and the stable sort is \<open>sort_key\<close>
  of the library, on the negated score.
\<close>

theorem filtered_sorted_stable:
  "filtered f C =
      sort_key (\<lambda>t. - (case score t of None \<Rightarrow> 0 | Some s \<Rightarrow> s))
        (filter (matches (toLowerCase (trim f))) C)
   \<and> subseq (filtered f C)
        (sort_key (\<lambda>t. - (case score t of None \<Rightarrow> 0 | Some s \<Rightarrow> s)) C)
   \<and> sorted_wrt (\<lambda>a b. (case score a of None \<Rightarrow> 0 | Some s \<Rightarrow> s)
                        \<ge> (case score b of None \<Rightarrow> 0 | Some s \<Rightarrow> s)) (filtered f C)
   \<and> (\<forall>k. filter (\<lambda>t. (case score t of None \<Rightarrow> 0 | Some s \<Rightarrow> s) = k) (filtered f C)
            = filter (\<lambda>t. (case score t of None \<Rightarrow> 0 | Some s \<Rightarrow> s) = k)
                (filter (matches (toLowerCase (trim f))) C))"
proof -
  let ?P = "matches (toLowerCase (trim f))"
  let ?key = "\<lambda>t. - (case score t of None \<Rightarrow> 0 | Some s \<Rightarrow> s)"
  have 1: "filtered f C = sort_key ?key (filter ?P C)"
    using array_sort_compare_score[of "filter ?P C"]
    unfolding score_or_zero_def by (simp add: filtered_def)
  have "filtered f C = filter ?P (sort_key ?key C)"
    unfolding 1 by (simp only: filter_sort)
  then have 2: "subseq (filtered f C) (sort_key ?key C)"
    by simp
  have 3: "sorted_wrt (\<lambda>a b. (case score a of None \<Rightarrow> 0 | Some s \<Rightarrow> s)
                        \<ge> (case score b of None \<Rightarrow> 0 | Some s \<Rightarrow> s)) (filtered f C)"
    using sorted_desc_filtered[of f C] unfolding score_or_zero_def .
  have 4: "filter (\<lambda>t. (case score t of None \<Rightarrow> 0 | Some s \<Rightarrow> s) = k) (filtered f C)
            = filter (\<lambda>t. (case score t of None \<Rightarrow> 0 | Some s \<Rightarrow> s) = k) (filter ?P C)" for k
    using stable_filtered[of k f C] unfolding score_or_zero_def .
  from 1 2 3 4 show ?thesis by blast
qed

text \<open>
  A catalog with the scores missing, 5, 7, 5, 0 and 9 for \<open>validate\<close>, \<open>plan\<close>,
  \<open>init\<close>, \<open>apply\<close>, \<open>list\<close> and \<open>pull\<close>. The filter \<open>L\<close> drops \<open>init\<close>, and the
  result is \<open>pull\<close> (9), then \<open>plan\<close> and \<open>apply\<close> (both 5, in catalog order), then
  \<open>validate\<close> (no score) and \<open>list\<close> (0), again in catalog order.
\<close>

theorem filtered_sorted_stable_witness:
  "map id_field (filtered ''L'' ranked_catalog)
     = [''pull'', ''plan'', ''apply'', ''validate'', ''list'']"
proof -
  have m: "filter (matches (toLowerCase (trim ''L''))) ranked_catalog =
     [example_topic ''validate'' ''Basic'' None, example_topic ''plan'' ''Basic'' (Some 5),
      example_topic ''apply'' ''Basic'' (Some 5), example_topic ''list'' ''State'' (Some 0),
      example_topic ''pull'' ''State'' (Some 9)]"
    by (simp add: ranked_catalog_def matches_def combined_def example_topic_def string_eval)
  from filtered_sorted_stable[THEN conjunct1, of "''L''" ranked_catalog]
  have "filtered ''L'' ranked_catalog =
     sort_key (\<lambda>t. - (case score t of None \<Rightarrow> 0 | Some s \<Rightarrow> s))
       [example_topic ''validate'' ''Basic'' None, example_topic ''plan'' ''Basic'' (Some 5),
        example_topic ''apply'' ''Basic'' (Some 5), example_topic ''list'' ''State'' (Some 0),
        example_topic ''pull'' ''State'' (Some 9)]"
    unfolding m .
  then show ?thesis
    by (simp add: example_topic_def)
qed

text \<open>
  Claim C4, as the code has it. For every view model the texts of the emitted headers are
  those of the distinct non-empty category values in the order of their first occurrence,
  no header is repeated, and the header of a category stands immediately before the card
  of the first topic that has it: at position \<open>i\<close> a header is emitted exactly when the
  category of topic \<open>i\<close> is non-empty and no earlier topic has it. A topic without a
  category gets a card and no header.
\<close>

theorem headers_first_seen:
  "headers_of (buildCards vm)
     = map pill_innerText (first_seen (filter (\<lambda>c. c \<noteq> []) (map category vm)))
   \<and> distinct (headers_of (buildCards vm))
   \<and> buildCards vm =
       concat (map (\<lambda>i. (if category (vm ! i) \<noteq> [] \<and> category (vm ! i) \<notin> category ` set (take i vm)
                          then [SectionHeader (pill_innerText (category (vm ! i)))] else [])
                         @ [CommandCard (createCard (vm ! i))]) [0..<length vm])"
proof -
  have 1: "headers_of (buildCards vm)
     = map pill_innerText (first_seen (filter (\<lambda>c. c \<noteq> []) (map category vm)))"
    by (simp add: buildCards_render_from headers_of_render_from)
  have 2: "distinct (headers_of (buildCards vm))"
    unfolding 1 by (simp add: distinct_map distinct_first_seen inj_on_subset[OF inj_pill])
  have 3: "buildCards vm =
       concat (map (\<lambda>i. (if category (vm ! i) \<noteq> [] \<and> category (vm ! i) \<notin> category ` set (take i vm)
                          then [SectionHeader (pill_innerText (category (vm ! i)))] else [])
                         @ [CommandCard (createCard (vm ! i))]) [0..<length vm])"
    using render_from_positions[of "{}" vm] by (simp add: buildCards_render_from)
  from 1 2 3 show ?thesis by blast
qed

text \<open>
  The scenario of the specification: the three scored topics of the category \<open>Basic\<close>
  are rendered under one header.
\<close>

theorem headers_first_seen_witness:
  "headers_of (buildCards (filtered [] scored_catalog)) = [''# Basic'']"
proof -
  have "map category (filtered [] scored_catalog) = [''Basic'', ''Basic'', ''Basic'']"
    by (simp add: example_eval string_eval)
  with headers_first_seen[THEN conjunct1, of "filtered [] scored_catalog"] show ?thesis
    by (simp add: pill_innerText_def)
qed

text \<open>
  Claim C4 as stated fails for a view model whose only topic has the empty category: the
  empty string is its first-seen category value, and no header is emitted.
\<close>

theorem headers_first_seen_counterexample:
  "headers_of (buildCards uncategorised_catalog)
     \<noteq> map pill_innerText (first_seen (map category uncategorised_catalog))"
  by (simp add: uncategorised_catalog_def example_topic_def buildCards_def)

lemma filtered_TOPICS: "filtered f TOPICS = filter (matches (toLowerCase (trim f))) TOPICS"
proof -
  have "\<forall>t \<in> set TOPICS. score t = None"
    using TOPICS_score by (simp add: list_all_iff)
  then have "\<forall>a \<in> set (filter (matches (toLowerCase (trim f))) TOPICS).
             \<forall>b \<in> set (filter (matches (toLowerCase (trim f))) TOPICS). compare_score a b = 0"
    by (simp add: compare_score_def score_or_zero_def)
  then show ?thesis
    by (simp only: filtered_def Let_def array_sort_equal_keys)
qed

text \<open>
  Claim C5, as the code has it. In every output the cards are in the order of the view
  model, and a header stands immediately before the card of topic \<open>i\<close> exactly when the
  category of that topic is non-empty and no earlier topic has it; so each non-empty
  category has one header, before its first card. When the topics of each category are
  adjacent in the view model, the output is the grouped presentation: the categories in
  first-seen order, each with its header (none for the topics without a category)
  followed by all the cards of that category. This is so for the embedded catalog under
  every filter string.
\<close>

theorem cards_grouped_when_contiguous:
  "cards_of (buildCards vm) = map createCard vm
   \<and> buildCards vm =
       concat (map (\<lambda>i. (if category (vm ! i) \<noteq> [] \<and> category (vm ! i) \<notin> category ` set (take i vm)
                          then [SectionHeader (pill_innerText (category (vm ! i)))] else [])
                         @ [CommandCard (createCard (vm ! i))]) [0..<length vm])
   \<and> (grouped (map category vm) \<longrightarrow> buildCards vm = grouped_render vm)
   \<and> refresh f TOPICS = grouped_render (filtered f TOPICS)"
proof -
  have 1: "cards_of (buildCards vm) = map createCard vm"
    by (simp add: buildCards_render_from cards_of_render_from)
  have 2: "buildCards vm =
       concat (map (\<lambda>i. (if category (vm ! i) \<noteq> [] \<and> category (vm ! i) \<notin> category ` set (take i vm)
                          then [SectionHeader (pill_innerText (category (vm ! i)))] else [])
                         @ [CommandCard (createCard (vm ! i))]) [0..<length vm])"
    using render_from_positions[of "{}" vm] by (simp add: buildCards_render_from)
  have 3: "buildCards us = grouped_render us" if "grouped (map category us)" for us
    using that render_from_grouped[of us "{}"] by (simp add: buildCards_render_from)
  have "grouped (map category (filtered f TOPICS))"
    unfolding filtered_TOPICS by (rule grouped_map_filter[OF TOPICS_categories_grouped])
  then have 4: "refresh f TOPICS = grouped_render (filtered f TOPICS)"
    unfolding refresh_def by (rule 3)
  from 1 2 3 4 show ?thesis by blast
qed

text \<open>
  The scenario of the specification: \<open>plan, init, apply\<close> under the single header
  \<open># Basic\<close>, which stands before \<open>plan\<close>. And a grouped view model with two topics
  that have no category between two categories: their cards follow the \<open>Basic\<close> card
  without a header of their own.
\<close>

theorem cards_grouped_when_contiguous_witness:
  "buildCards (filtered [] scored_catalog) =
     [SectionHeader ''# Basic'',
      CommandCard (createCard (example_topic ''plan'' ''Basic'' (Some 95))),
      CommandCard (createCard (example_topic ''init'' ''Basic'' (Some 90))),
      CommandCard (createCard (example_topic ''apply'' ''Basic'' (Some 85)))]
   \<and> buildCards [example_topic ''init'' ''Basic'' None, example_topic ''version'' [] None,
                 example_topic ''show'' [] None, example_topic ''list'' ''State'' None] =
     [SectionHeader ''# Basic'',
      CommandCard (createCard (example_topic ''init'' ''Basic'' None)),
      CommandCard (createCard (example_topic ''version'' [] None)),
      CommandCard (createCard (example_topic ''show'' [] None)),
      SectionHeader ''# State'',
      CommandCard (createCard (example_topic ''list'' ''State'' None))]"
proof -
  let ?mixed = "[example_topic ''init'' ''Basic'' None, example_topic ''version'' [] None,
                 example_topic ''show'' [] None, example_topic ''list'' ''State'' None]"
  have vm: "filtered [] scored_catalog =
     [example_topic ''plan'' ''Basic'' (Some 95), example_topic ''init'' ''Basic'' (Some 90),
      example_topic ''apply'' ''Basic'' (Some 85)]"
    by (simp add: scored_catalog_def filtered_def array_sort_def compare_score_def
        score_or_zero_def matches_def example_topic_def string_eval)
  have cat: "category (example_topic n c s) = c" for n c s
    by (simp add: example_topic_def)
  have g: "grouped (map category (filtered [] scored_catalog))"
    unfolding vm by (simp add: cat)
  with cards_grouped_when_contiguous[of "filtered [] scored_catalog"]
  have "buildCards (filtered [] scored_catalog) = grouped_render (filtered [] scored_catalog)"
    by blast
  then have a: "buildCards (filtered [] scored_catalog) =
     [SectionHeader ''# Basic'',
      CommandCard (createCard (example_topic ''plan'' ''Basic'' (Some 95))),
      CommandCard (createCard (example_topic ''init'' ''Basic'' (Some 90))),
      CommandCard (createCard (example_topic ''apply'' ''Basic'' (Some 85)))]"
    unfolding vm by (simp add: grouped_render_def group_of_def cat pill_innerText_def)
  have "grouped (map category ?mixed)"
    by (simp add: cat)
  with cards_grouped_when_contiguous[of ?mixed]
  have "buildCards ?mixed = grouped_render ?mixed"
    by blast
  then have b: "buildCards ?mixed =
     [SectionHeader ''# Basic'',
      CommandCard (createCard (example_topic ''init'' ''Basic'' None)),
      CommandCard (createCard (example_topic ''version'' [] None)),
      CommandCard (createCard (example_topic ''show'' [] None)),
      SectionHeader ''# State'',
      CommandCard (createCard (example_topic ''list'' ''State'' None))]"
    by (simp add: grouped_render_def group_of_def cat pill_innerText_def)
  from a b show ?thesis by blast
qed

text \<open>
  Claim C5 as stated fails where a category is not contiguous in the view model: for the
  catalog \<open>init\<close> (Basic), \<open>state\<close> (State), \<open>plan\<close> (Basic) the card of \<open>plan\<close>
  comes after the card of \<open>state\<close>, under the header \<open># State\<close>, and the output is not
  the grouped presentation.
\<close>

theorem scattered_categories_counterexample:
  "refresh [] scattered_catalog =
     [SectionHeader ''# Basic'',
      CommandCard (createCard (example_topic ''init'' ''Basic'' None)),
      SectionHeader ''# State'',
      CommandCard (createCard (example_topic ''state'' ''State'' None)),
      CommandCard (createCard (example_topic ''plan'' ''Basic'' None))]
   \<and> refresh [] scattered_catalog \<noteq> grouped_render (filtered [] scattered_catalog)"
proof -
  have vm: "filtered [] scattered_catalog =
     [example_topic ''init'' ''Basic'' None, example_topic ''state'' ''State'' None,
      example_topic ''plan'' ''Basic'' None]"
    by (simp add: scattered_catalog_def filtered_def array_sort_def compare_score_def
        score_or_zero_def matches_def example_topic_def string_eval)
  have cat: "category (example_topic n c s) = c" for n c s
    by (simp add: example_topic_def)
  show ?thesis
    unfolding refresh_def vm
    by (simp add: buildCards_def grouped_render_def group_of_def cat pill_innerText_def)
qed

text \<open>
  Claim C6. No two entries of the embedded catalog have the same \<open>id\<close>.
\<close>

theorem catalog_ids_unique: "distinct (map id_field TOPICS)"
  by (simp add: TOPICS_def)

text \<open>
  Two entries of the catalog, \<open>refresh\<close> (entry 17) and \<open>plan_refresh_false_exp\<close>
  (entry 64), have different ids.
\<close>

theorem catalog_ids_unique_witness: "id_field (TOPICS ! 17) \<noteq> id_field (TOPICS ! 64)"
  using catalog_ids_unique by (simp add: distinct_conv_nth length_TOPICS)

text \<open>
  Claim C9. No entry of the embedded catalog has a score; the score comparison is zero
  for every pair of entries; so for every filter string the view model is the matching
  entries in catalog order, and no rendered card has a score badge.
\<close>

theorem no_scores_in_catalog:
  "list_all (\<lambda>t. score t = None) TOPICS
   \<and> (\<forall>a \<in> set TOPICS. \<forall>b \<in> set TOPICS. compare_score a b = 0)
   \<and> filtered f TOPICS = filter (matches (toLowerCase (trim f))) TOPICS
   \<and> list_all (\<lambda>c. score_badge c = None) (cards_of (refresh f TOPICS))"
proof -
  have none: "\<forall>t \<in> set TOPICS. score t = None"
    using TOPICS_score by (simp add: list_all_iff)
  then have 2: "\<forall>a \<in> set TOPICS. \<forall>b \<in> set TOPICS. compare_score a b = 0"
    by (simp add: compare_score_def score_or_zero_def)
  have "cards_of (refresh f TOPICS) = map createCard (filter (matches (toLowerCase (trim f))) TOPICS)"
    by (simp add: refresh_def filtered_TOPICS buildCards_render_from cards_of_render_from)
  moreover have "score_badge (createCard t) = None" if "t \<in> set TOPICS" for t
    using that none by (simp add: createCard_def)
  ultimately have 4: "list_all (\<lambda>c. score_badge c = None) (cards_of (refresh f TOPICS))"
    by (simp add: list_all_iff)
  from TOPICS_score 2 filtered_TOPICS[of f] 4 show ?thesis by blast
qed

text \<open>
  The comparison of \<open>plan\<close> with \<open>init\<close> is zero, and the filter \<open>Plan\<close> (with a
  trailing space) yields the entries that match \<open>plan\<close>, in catalog order.
\<close>

theorem no_scores_in_catalog_witness:
  "compare_score (TOPICS ! 1) (TOPICS ! 0) = 0
   \<and> filtered ''Plan '' TOPICS = filter (matches ''plan'') TOPICS"
proof -
  have ft: "toLowerCase (trim ''Plan '') = ''plan''"
    by (simp add: string_eval)
  have "TOPICS ! 0 \<in> set TOPICS" "TOPICS ! 1 \<in> set TOPICS"
    by (simp_all add: length_TOPICS)
  with no_scores_in_catalog[of "''Plan ''"] show ?thesis
    unfolding ft by blast
qed

lemma initial_page_one:
  "initial_page [example_topic ''init'' ''Basic'' None] clip =
     \<lparr>nodes = [SectionHeader ''# Basic'',
               CommandCard (createCard (example_topic ''init'' ''Basic'' None))],
      clipboard = clip, timeouts = []\<rparr>"
  by (simp add: initial_page_def buildCards_def pill_innerText_def example_topic_def)

lemma createCard_init:
  "createCard (example_topic ''init'' ''Basic'' None) =
     \<lparr>left_innerHTML =
        ''<h6 style='' @ [CHR 0x22] @ ''margin-bottom:.25rem'' @ [CHR 0x22]
          @ ''>terraform init</h6><p style='' @ [CHR 0x22] @ ''margin:0; opacity:.85''
          @ [CHR 0x22] @ ''></p>'',
      score_badge = None, docs_href = ''#'',
      toggle_innerText = ''Show example'', example_display = ''none'',
      cmdBlock = Some ''terraform init\<newline>terraform init -upgrade'',
      copyBtn = Some ''Copy''\<rparr>"
  by (simp add: createCard_def example_topic_def)

text \<open>
  Claim C7. Clicking the copy button of a card, when the clipboard write succeeds, puts
  the text of the code block of the card on the clipboard (the command, a line feed and
  the example, for a card built from a topic with a command), sets the text of the button
  to \<open>Copied\<close> and schedules, 1200 milliseconds later, the assignment of the text the
  button had before; once the pending callbacks have run, the button shows that text
  again.
\<close>

theorem copy_success:
  assumes "i < length (nodes p)" "nodes p ! i = CommandCard c"
    "cmdBlock c = Some text" "copyBtn c = Some l"
  shows "clipboard (copy_click i Fulfilled p) = text
       \<and> btn_innerText (nodes (copy_click i Fulfilled p)) i = Some ''Copied''
       \<and> timeouts (copy_click i Fulfilled p) = timeouts p @ [(1200, i, l)]
       \<and> btn_innerText (nodes (run_timeouts (copy_click i Fulfilled p))) i = Some l
       \<and> (c = createCard t \<longrightarrow>
            text = (if cmd t \<noteq> [] then cmd t @ ''\<newline>'' else []) @ example t)"
proof -
  have btn: "btn_innerText (nodes p) i = Some l"
    using assms by (simp add: btn_at_card)
  have click: "copy_click i Fulfilled p =
      p\<lparr>clipboard := text, nodes := set_btn_innerText i ''Copied'' (nodes p),
        timeouts := timeouts p @ [(1200, i, l)]\<rparr>"
    using assms by (simp add: copy_click_card copyToClipboard_def btn)
  have 1: "clipboard (copy_click i Fulfilled p) = text"
    by (simp add: click)
  have 2: "btn_innerText (nodes (copy_click i Fulfilled p)) i = Some ''Copied''"
    by (simp add: click btn_set_same[OF btn])
  have 3: "timeouts (copy_click i Fulfilled p) = timeouts p @ [(1200, i, l)]"
    by (simp add: click)
  have "btn_innerText (set_btn_innerText i ''Copied'' (nodes p)) i \<noteq> None"
    by (simp add: btn_set_same[OF btn])
  from btn_after_timeouts[OF this, of "timeouts p" 1200 l]
  have 4: "btn_innerText (nodes (run_timeouts (copy_click i Fulfilled p))) i = Some l"
    by (simp add: click run_timeouts_def)
  have 5: "text = (if cmd t \<noteq> [] then cmd t @ ''\<newline>'' else []) @ example t"
    if "c = createCard t"
    using that assms(3) by (simp add: createCard_def split: if_splits)
  from 1 2 3 4 5 show ?thesis by blast
qed

text \<open>
  The scenario of the specification: the text \<open>terraform init\<close>, line feed,
  \<open>terraform init -upgrade\<close> goes to the clipboard, the button shows \<open>Copied\<close>, and
  then \<open>Copy\<close> again.
\<close>

theorem copy_success_witness:
  "clipboard (copy_click 1 Fulfilled (initial_page [example_topic ''init'' ''Basic'' None] ''old''))
     = ''terraform init\<newline>terraform init -upgrade''
   \<and> btn_innerText (nodes (copy_click 1 Fulfilled
        (initial_page [example_topic ''init'' ''Basic'' None] ''old''))) 1 = Some ''Copied''
   \<and> btn_innerText (nodes (run_timeouts (copy_click 1 Fulfilled
        (initial_page [example_topic ''init'' ''Basic'' None] ''old'')))) 1 = Some ''Copy''"
proof -
  let ?p = "initial_page [example_topic ''init'' ''Basic'' None] ''old''"
  let ?c = "createCard (example_topic ''init'' ''Basic'' None)"
  have a: "1 < length (nodes ?p)" "nodes ?p ! 1 = CommandCard ?c"
    by (simp_all add: initial_page_one)
  have b: "cmdBlock ?c = Some ''terraform init\<newline>terraform init -upgrade''"
    "copyBtn ?c = Some ''Copy''"
    by (simp_all add: createCard_init)
  from copy_success[OF a b] show ?thesis by blast
qed

text \<open>
  Claim C10. When the clipboard write fails, the text of the copy button becomes
  \<open>Copy failed\<close>, the clipboard is unchanged, and the scheduled callback assigns the
  fixed text \<open>Copy\<close>, whatever the button showed before the click.
\<close>

theorem copy_failure:
  assumes "i < length (nodes p)" "nodes p ! i = CommandCard c"
    "cmdBlock c = Some text" "copyBtn c = Some l"
  shows "btn_innerText (nodes (copy_click i Rejected p)) i = Some ''Copy failed''
       \<and> clipboard (copy_click i Rejected p) = clipboard p
       \<and> timeouts (copy_click i Rejected p) = timeouts p @ [(1200, i, ''Copy'')]
       \<and> btn_innerText (nodes (run_timeouts (copy_click i Rejected p))) i = Some ''Copy''"
proof -
  have btn: "btn_innerText (nodes p) i = Some l"
    using assms by (simp add: btn_at_card)
  have click: "copy_click i Rejected p =
      p\<lparr>nodes := set_btn_innerText i ''Copy failed'' (nodes p),
        timeouts := timeouts p @ [(1200, i, ''Copy'')]\<rparr>"
    using assms by (simp add: copy_click_card copyToClipboard_def)
  have 1: "btn_innerText (nodes (copy_click i Rejected p)) i = Some ''Copy failed''"
    by (simp add: click btn_set_same[OF btn])
  have 2: "clipboard (copy_click i Rejected p) = clipboard p"
    by (simp add: click)
  have 3: "timeouts (copy_click i Rejected p) = timeouts p @ [(1200, i, ''Copy'')]"
    by (simp add: click)
  have "btn_innerText (set_btn_innerText i ''Copy failed'' (nodes p)) i \<noteq> None"
    by (simp add: btn_set_same[OF btn])
  from btn_after_timeouts[OF this, of "timeouts p" 1200 "''Copy''"]
  have 4: "btn_innerText (nodes (run_timeouts (copy_click i Rejected p))) i = Some ''Copy''"
    by (simp add: click run_timeouts_def)
  from 1 2 3 4 show ?thesis by blast
qed

text \<open>
  A failed copy on a button that shows \<open>Copied\<close> (after a successful copy whose callback
  has not run yet): the button shows \<open>Copy failed\<close> and ends at \<open>Copy\<close>, not at
  \<open>Copied\<close>.
\<close>

theorem copy_failure_witness:
  "btn_innerText (nodes (copy_click 1 Fulfilled
       (initial_page [example_topic ''init'' ''Basic'' None] []))) 1 = Some ''Copied''
   \<and> btn_innerText (nodes (copy_click 1 Rejected (copy_click 1 Fulfilled
       (initial_page [example_topic ''init'' ''Basic'' None] [])))) 1 = Some ''Copy failed''
   \<and> btn_innerText (nodes (run_timeouts (copy_click 1 Rejected (copy_click 1 Fulfilled
       (initial_page [example_topic ''init'' ''Basic'' None] []))))) 1 = Some ''Copy''"
proof -
  let ?p = "copy_click 1 Fulfilled (initial_page [example_topic ''init'' ''Basic'' None] [])"
  let ?c = "(createCard (example_topic ''init'' ''Basic'' None))\<lparr>copyBtn := Some ''Copied''\<rparr>"
  have p: "nodes ?p = [SectionHeader ''# Basic'', CommandCard ?c]"
    by (simp add: initial_page_one createCard_init copy_click_def copyToClipboard_def
        btn_innerText_def set_btn_innerText_def)
  have a: "1 < length (nodes ?p)" "nodes ?p ! 1 = CommandCard ?c"
    unfolding p by simp_all
  have b: "cmdBlock ?c = Some ''terraform init\<newline>terraform init -upgrade''"
    "copyBtn ?c = Some ''Copied''"
    by (simp_all add: createCard_init)
  have before: "btn_innerText (nodes ?p) 1 = Some ''Copied''"
    unfolding p by (simp add: btn_innerText_def)
  from copy_failure[OF a b] before show ?thesis by blast
qed

text \<open>
  Claim C8. Every card is rendered with its example hidden and the toggle text
  \<open>Show example\<close>. On the rendered page, two clicks on the toggle of a card give the
  page back unchanged. More generally, on any page where the example of card \<open>i\<close> is
  hidden with the initial toggle text, the first click changes only the display and the
  toggle text of that card, and the second click restores the page.
\<close>

theorem toggle_twice_restores:
  "list_all (\<lambda>c. example_display c = ''none'' \<and> toggle_innerText c = ''Show example'')
      (cards_of (buildCards vm))
   \<and> toggle_click i (toggle_click i (initial_page vm clip)) = initial_page vm clip
   \<and> (i < length (nodes p) \<and> nodes p ! i = CommandCard c
        \<and> example_display c = ''none'' \<and> toggle_innerText c = ''Show example''
      \<longrightarrow> nodes (toggle_click i p) =
            (nodes p)[i := CommandCard
               (c\<lparr>example_display := ''block'', toggle_innerText := ''Hide example''\<rparr>)]
          \<and> toggle_click i (toggle_click i p) = p)"
proof -
  have 1: "list_all (\<lambda>c. example_display c = ''none'' \<and> toggle_innerText c = ''Show example'')
      (cards_of (buildCards vm))"
    by (simp add: buildCards_render_from cards_of_render_from list_all_iff createCard_hidden)
  have 2: "toggle_click i (toggle_click i (initial_page vm clip)) = initial_page vm clip"
  proof (cases "i < length (nodes (initial_page vm clip))
                 \<and> (\<exists>c. nodes (initial_page vm clip) ! i = CommandCard c)")
    case True
    then obtain c where c: "i < length (nodes (initial_page vm clip))"
      "nodes (initial_page vm clip) ! i = CommandCard c" by blast
    then have "c \<in> set (cards_of (buildCards vm))"
      using nodes_cards_of[of i "buildCards vm" c] by (simp add: initial_page_def)
    with 1 have "example_display c = ''none''" "toggle_innerText c = ''Show example''"
      by (simp_all add: list_all_iff)
    with c show ?thesis by (rule toggle_click_twice)
  next
    case False
    then show ?thesis by (simp add: toggle_click_not_card)
  qed
  have 3: "nodes (toggle_click i p) =
            (nodes p)[i := CommandCard
               (c\<lparr>example_display := ''block'', toggle_innerText := ''Hide example''\<rparr>)]
          \<and> toggle_click i (toggle_click i p) = p"
    if "i < length (nodes p) \<and> nodes p ! i = CommandCard c
        \<and> example_display c = ''none'' \<and> toggle_innerText c = ''Show example''"
    using that by (simp add: toggle_click_twice) (simp add: toggle_click_def toggle_listener_def)
  from 1 2 3 show ?thesis by blast
qed

text \<open>
  One card under its header: the first click shows the example, the second click gives
  the initial page.
\<close>

theorem toggle_twice_restores_witness:
  "nodes (toggle_click 1 (initial_page [example_topic ''init'' ''Basic'' None] [])) =
     [SectionHeader ''# Basic'',
      CommandCard ((createCard (example_topic ''init'' ''Basic'' None))
         \<lparr>example_display := ''block'', toggle_innerText := ''Hide example''\<rparr>)]
   \<and> toggle_click 1 (toggle_click 1 (initial_page [example_topic ''init'' ''Basic'' None] []))
       = initial_page [example_topic ''init'' ''Basic'' None] []"
proof -
  let ?p = "initial_page [example_topic ''init'' ''Basic'' None] []"
  let ?c = "createCard (example_topic ''init'' ''Basic'' None)"
  have a: "1 < length (nodes ?p) \<and> nodes ?p ! 1 = CommandCard ?c
           \<and> example_display ?c = ''none'' \<and> toggle_innerText ?c = ''Show example''"
    by (simp add: initial_page_one createCard_init)
  have n: "(nodes ?p)[1 := CommandCard
              (?c\<lparr>example_display := ''block'', toggle_innerText := ''Hide example''\<rparr>)]
           = [SectionHeader ''# Basic'', CommandCard
              (?c\<lparr>example_display := ''block'', toggle_innerText := ''Hide example''\<rparr>)]"
    by (simp add: initial_page_one)
  from toggle_twice_restores[of "[]" 1 "[]" ?p ?c] a show ?thesis
    unfolding n by blast
qed

end
